theory Spec2Isabelle
  imports Main "HOL-Library.AList" "HOL-Library.Multiset" "HOL-Library.Char_ord"
    "HOL-Library.List_Lexorder" "HOL-Library.Product_Lexorder"
begin

section \<open>Python values, errors and dictionaries\<close>

text \<open>
  The development embeds \<^verbatim>\<open>lightautoml/addons/uplift/base.py\<close>. Every
  \<^verbatim>\<open>raise\<close> of the source and every failing library call is a value
  \<open>Inl e\<close> of the result type \<open>error + 'a\<close>. A Python \<^verbatim>\<open>dict\<close>
  is an association list in insertion order; assigning to a key that is present keeps
  its position (\<open>AList.update\<close>), as Python does.
\<close>

datatype error =
    KeyError
  | IndexError
  | TypeError
  | ValueError
  | AttributeError
  | UnboundLocalError
  | AssertionError
  | Exception string

text \<open>Parameter values of a base learner: \<^verbatim>\<open>None\<close>, numbers, strings, \<^verbatim>\<open>Task(name)\<close>.\<close>

datatype pyval = VNone | VInt int | VStr string | VTask string

definition deepcopy :: "'a \<Rightarrow> 'a" where
  "deepcopy x = x"

definition dict_update :: "('k \<times> 'v) list \<Rightarrow> ('k \<times> 'v) list \<Rightarrow> ('k \<times> 'v) list" where
  \<comment> \<open>\<^verbatim>\<open>m.update(d)\<close>\<close>
  "dict_update m d = fold (\<lambda>(k, v). AList.update k v) d m"

definition py_dict :: "('k \<times> 'v) list \<Rightarrow> ('k \<times> 'v) list" where
  \<comment> \<open>\<^verbatim>\<open>dict(pairs)\<close>\<close>
  "py_dict ps = dict_update [] ps"

definition dict_pop :: "('k \<times> 'v) list \<Rightarrow> 'k \<Rightarrow> error + ('k \<times> 'v) list" where
  \<comment> \<open>\<^verbatim>\<open>m.pop(k)\<close> without a default: the dictionary that is left\<close>
  "dict_pop m k = (case map_of m k of None \<Rightarrow> Inl KeyError | Some _ \<Rightarrow> Inr (AList.delete k m))"

definition dict_getitem :: "('k \<times> 'v) list \<Rightarrow> 'k \<Rightarrow> error + 'v" where
  \<comment> \<open>\<^verbatim>\<open>m[k]\<close> on a plain dictionary\<close>
  "dict_getitem m k = (case map_of m k of None \<Rightarrow> Inl KeyError | Some v \<Rightarrow> Inr v)"

section \<open>Wrappers\<close>

text \<open>
  \<^verbatim>\<open>Wrapper\<close> is a dataclass with the fields name, klass and params; the class
  to build is kept by its name. A \<^verbatim>\<open>BaseLearnerWrapper\<close> holds plain values,
  a \<^verbatim>\<open>MetaLearnerWrapper\<close> holds base-learner wrappers directly, lists of
  items, or other values.
\<close>

record 'p Wrapper =
  name :: string
  klass :: string
  params :: "(string \<times> 'p) list"

type_synonym BaseLearnerWrapper = "pyval Wrapper"

datatype mlitem = IBase BaseLearnerWrapper | IOther pyval

datatype mlparam = PBase BaseLearnerWrapper | PList "mlitem list" | POther pyval

type_synonym MetaLearnerWrapper = "mlparam Wrapper"

definition update_params :: "'p Wrapper \<Rightarrow> (string \<times> 'p) list \<Rightarrow> 'p Wrapper" where
  "update_params w d = w\<lparr>params := dict_update (params w) d\<rparr>"

fun update_item :: "(string \<times> pyval) list \<Rightarrow> mlitem \<Rightarrow> mlitem" where
  "update_item d (IBase x) = IBase (update_params x d)"
| "update_item d (IOther x) = IOther x"

text \<open>
  One iteration of the loop of \<^verbatim>\<open>update_baselearner_params\<close>. The first
  component is the value the old dictionary holds after the iteration (the objects are
  updated in place), the second is what the iteration stores in
  \<^verbatim>\<open>new_params\<close>. For a wrapper held directly the copy \<^verbatim>\<open>v_t\<close> is
  taken before \<^verbatim>\<open>v.update_params(d)\<close> runs and it is the copy that is stored.
\<close>

fun update_baselearner_param :: "(string \<times> pyval) list \<Rightarrow> mlparam \<Rightarrow> mlparam \<times> mlparam" where
  "update_baselearner_param d (PBase v) =
     (let v_t = deepcopy v;
          v' = update_params v d
      in (PBase v', PBase v_t))"
| "update_baselearner_param d (PList v) =
     (let vs_t = map (update_item d) v
      in (PList vs_t, PList vs_t))"
| "update_baselearner_param d (POther v) = (POther v, POther v)"

definition update_baselearner_params ::
  "MetaLearnerWrapper \<Rightarrow> (string \<times> pyval) list \<Rightarrow> MetaLearnerWrapper" where
  "update_baselearner_params w d =
     (let new_params = map (\<lambda>(k, v). (k, snd (update_baselearner_param d v))) (params w)
      in w\<lparr>params := new_params\<rparr>)"

section \<open>Stages of the metalearners\<close>

type_synonym MLStageFullName = "string list"

datatype MetaLearnerStage =
  MetaLearnerStage (stage_name: string) (stage_params: "(string \<times> pyval) list")
    (prev_stage: "MetaLearnerStage option")

fun full_name :: "MetaLearnerStage \<Rightarrow> MLStageFullName" where
  "full_name (MetaLearnerStage n ps None) = [n]"
| "full_name (MetaLearnerStage n ps (Some p)) = full_name p @ [n]"

definition MAP_META_TO_STAGES :: "(string \<times> MetaLearnerStage list) list" where
  "MAP_META_TO_STAGES =
    [(''TLearner'',
       [MetaLearnerStage ''outcome_control'' [] None,
        MetaLearnerStage ''outcome_treatment'' [] None]),
     (''XLearner'',
       [MetaLearnerStage ''outcome_control'' [] None,
        MetaLearnerStage ''outcome_treatment'' [] None,
        MetaLearnerStage ''propensity'' [(''task'', VTask ''binary'')] None,
        MetaLearnerStage ''effect_control'' [(''task'', VTask ''reg'')]
          (Some (MetaLearnerStage ''outcome_treatment'' [] None)),
        MetaLearnerStage ''effect_treatment'' [(''task'', VTask ''reg'')]
          (Some (MetaLearnerStage ''outcome_control'' [] None))])]"

definition extract_stages :: "(string \<times> MetaLearnerStage) list" where
  "extract_stages =
     concat (map (\<lambda>(ml_name, ml_stages). map (\<lambda>stage. (ml_name, stage)) ml_stages)
       MAP_META_TO_STAGES)"

definition extract_stage :: "MLStageFullName \<Rightarrow> error + MetaLearnerStage" where
  "extract_stage fn =
     (case find (\<lambda>(ml_name, stage). full_name stage = fn) extract_stages of
        Some (ml_name, stage) \<Rightarrow> Inr stage
      | None \<Rightarrow> Inl (Exception ''Can't find stage''))"

section \<open>Trained stage records and the cache\<close>

text \<open>
  A \<^verbatim>\<open>DataFrame\<close> is a dictionary of columns. A trained model is known by
  its \<^verbatim>\<open>predict\<close>: from a frame to an array. The element type \<open>'a\<close>
  stands for the numbers of the frame; the development only uses \<open>0\<close>, \<open>1\<close>,
  \<open>+\<close>, \<open>-\<close> and \<open>*\<close> on it, whatever arithmetic they denote.
\<close>

type_synonym 'a DataFrame = "(string \<times> 'a list) list"

type_synonym 'a AutoML = "'a DataFrame \<Rightarrow> 'a list"

record 'a TrainedStageBaseLearner =
  stage_bl :: BaseLearnerWrapper
  prev_stage_bl :: "BaseLearnerWrapper option"
  trained_model :: "'a AutoML"
  pred :: "'a list"

type_synonym 'a cache = "(MLStageFullName \<times> 'a TrainedStageBaseLearner list) list"

text \<open>
  \<^verbatim>\<open>create_best_metalearner\<close> up to the specification \<^verbatim>\<open>ml_wrap\<close> it
  instantiates. \<^verbatim>\<open>best_metalearner\<close> is only bound under
  \<^verbatim>\<open>need_report\<close>.
\<close>

definition create_best_metalearner ::
  "'a cache \<Rightarrow> MetaLearnerWrapper \<Rightarrow> bool \<Rightarrow> (string \<times> pyval) list
     \<Rightarrow> error + MetaLearnerWrapper" where
  "create_best_metalearner trained_stage_baselearners best_metalearner_wrap need_report
       update_metalearner_params =
     (if \<not> (length trained_stage_baselearners > 0) then Inl AssertionError
      else
        let ml_wrap = deepcopy best_metalearner_wrap;
            ml_wrap = (if update_metalearner_params \<noteq> []
                       then update_baselearner_params ml_wrap update_metalearner_params
                       else ml_wrap)
        in if need_report then Inr ml_wrap else Inl UnboundLocalError)"

section \<open>Frames and arrays\<close>

definition bind_err :: "error + 'x \<Rightarrow> ('x \<Rightarrow> error + 'y) \<Rightarrow> error + 'y" where
  "bind_err r f = (case r of Inl e \<Rightarrow> Inl e | Inr x \<Rightarrow> f x)"

definition df_getitem :: "'a DataFrame \<Rightarrow> string \<Rightarrow> error + 'a list" where
  \<comment> \<open>\<^verbatim>\<open>df[col]\<close>\<close>
  "df_getitem df c = dict_getitem df c"

definition df_mask :: "'a DataFrame \<Rightarrow> bool list \<Rightarrow> 'a DataFrame" where
  \<comment> \<open>\<^verbatim>\<open>df[mask]\<close>: the rows at which the mask holds, in every column\<close>
  "df_mask df msk = map (\<lambda>(c, vs). (c, map snd (filter fst (zip msk vs)))) df"

definition df_drop :: "'a DataFrame \<Rightarrow> string \<Rightarrow> error + 'a DataFrame" where
  \<comment> \<open>\<^verbatim>\<open>df.drop(col, axis=1)\<close>\<close>
  "df_drop df c = dict_pop df c"

definition nrows :: "'a DataFrame \<Rightarrow> nat" where
  "nrows df = (case df of [] \<Rightarrow> 0 | (c, vs) # _ \<Rightarrow> length vs)"

definition df_setitem :: "'a DataFrame \<Rightarrow> string \<Rightarrow> 'a list \<Rightarrow> error + 'a DataFrame" where
  \<comment> \<open>\<^verbatim>\<open>df[col] = values\<close>: one value per row\<close>
  "df_setitem df c vs =
     (if length vs = nrows df then Inr (AList.update c vs df) else Inl ValueError)"

definition np_binop :: "('a \<Rightarrow> 'a \<Rightarrow> 'a) \<Rightarrow> 'a list \<Rightarrow> 'a list \<Rightarrow> error + 'a list" where
  \<comment> \<open>an elementwise operation on two one-dimensional arrays, with numpy's broadcasting
      of an array of length one\<close>
  "np_binop f xs ys =
     (if length xs = length ys then Inr (map2 f xs ys)
      else if length xs = 1 then Inr (map (f (hd xs)) ys)
      else if length ys = 1 then Inr (map (\<lambda>x. f x (hd ys)) xs)
      else Inl ValueError)"

section \<open>Preparing the data of one stage\<close>

type_synonym roles = "(string \<times> string) list"

type_synonym stage_info = "(MetaLearnerStage \<times> BaseLearnerWrapper option) list"

text \<open>
  The candidate of a submission is optional because the scheduler can hand over
  \<^verbatim>\<open>None\<close> (the fill value of \<^verbatim>\<open>zip_longest\<close>).
  \<open>treatment\<close> and \<open>target\<close> are the pairs (role, column) that
  \<^verbatim>\<open>uplift_utils._get_treatment_role\<close> and
  \<^verbatim>\<open>uplift_utils._get_target_role\<close> return for the roles.
\<close>

definition prev_stage_model ::
  "'a cache \<Rightarrow> MetaLearnerStage \<Rightarrow> BaseLearnerWrapper option \<Rightarrow> error + 'a AutoML" where
  \<comment> \<open>\<^verbatim>\<open>[bl.trained_model for bl in cache[prev.full_name()] if bl.stage_bl.name == prev_bl_wrap.name][0]\<close>\<close>
  "prev_stage_model trained_stage_baselearners prev_ml_stage prev_bl_wrap =
     (case (case map_of trained_stage_baselearners (full_name prev_ml_stage) of
              None \<Rightarrow> [] | Some bls \<Rightarrow> bls) of
        [] \<Rightarrow> Inl IndexError
      | b # bs \<Rightarrow>
          (case prev_bl_wrap of
             None \<Rightarrow> Inl AttributeError
           | Some w \<Rightarrow>
               (case filter (\<lambda>bl. name (stage_bl bl) = name w) (b # bs) of
                  [] \<Rightarrow> Inl IndexError
                | r # _ \<Rightarrow> Inr (trained_model r))))"

definition prepare_data_for_stage ::
  "('a::{zero,one,minus}) cache \<Rightarrow> stage_info \<Rightarrow> 'a DataFrame \<Rightarrow> roles
     \<Rightarrow> string \<times> string \<Rightarrow> string \<times> string \<Rightarrow> error + ('a DataFrame \<times> roles)" where
  "prepare_data_for_stage trained_stage_baselearners stage_info train roles treatment target =
     (let (treatment_role, treatment_col) = treatment;
          (target_role, target_col) = target
      in if stage_info = [] then Inl IndexError
      else
        let stage_name = stage_name (fst (last stage_info)) in
        if length stage_info = 1 then
          (if stage_name = ''propensity'' then
             bind_err (dict_pop (deepcopy roles) treatment_role) (\<lambda>train_roles.
             bind_err (dict_pop train_roles target_role) (\<lambda>train_roles.
             let train_roles = AList.update ''target'' treatment_col train_roles in
             bind_err (df_drop train target_col) (\<lambda>train_data.
             Inr (train_data, train_roles))))
           else if stage_name = ''outcome_control'' then
             bind_err (dict_pop (deepcopy roles) treatment_role) (\<lambda>train_roles.
             bind_err (df_getitem train treatment_col) (\<lambda>t.
             bind_err (df_drop (df_mask train (map (\<lambda>x. x = 0) t)) treatment_col) (\<lambda>train_data.
             Inr (train_data, train_roles))))
           else if stage_name = ''outcome_treatment'' then
             bind_err (dict_pop (deepcopy roles) treatment_role) (\<lambda>train_roles.
             bind_err (df_getitem train treatment_col) (\<lambda>t.
             bind_err (df_drop (df_mask train (map (\<lambda>x. x = 1) t)) treatment_col) (\<lambda>train_data.
             Inr (train_data, train_roles))))
           else Inl (Exception ''Wrong l1 stage name''))
        else if length stage_info = 2 then
          bind_err (dict_pop (deepcopy roles) treatment_role) (\<lambda>train_roles.
          let (prev_ml_stage, prev_bl_wrap) = stage_info ! 0 in
          bind_err (prev_stage_model trained_stage_baselearners prev_ml_stage prev_bl_wrap)
            (\<lambda>prev_stage_bl.
          if stage_name = ''effect_control'' then
            bind_err (df_getitem train treatment_col) (\<lambda>t.
            bind_err (df_drop (df_mask train (map (\<lambda>x. x = 0) t)) treatment_col) (\<lambda>train_data.
            let opposite_gr_pred = prev_stage_bl train_data in
            bind_err (df_getitem train_data target_col) (\<lambda>y.
            bind_err (np_binop (\<lambda>a b. a - b) opposite_gr_pred y) (\<lambda>d.
            bind_err (df_setitem train_data target_col d) (\<lambda>train_data.
            Inr (train_data, train_roles))))))
          else if stage_name = ''effect_treatment'' then
            bind_err (df_getitem train treatment_col) (\<lambda>t.
            bind_err (df_drop (df_mask train (map (\<lambda>x. x = 1) t)) treatment_col) (\<lambda>train_data.
            let opposite_gr_pred = prev_stage_bl train_data in
            bind_err (df_getitem train_data target_col) (\<lambda>y.
            bind_err (np_binop (\<lambda>a b. a - b) y opposite_gr_pred) (\<lambda>d.
            bind_err (df_setitem train_data target_col d) (\<lambda>train_data.
            Inr (train_data, train_roles))))))
          else Inl (Exception ''Wrong l2 stage name'')))
        else Inl UnboundLocalError)"

section \<open>Assembling and scoring the metalearners\<close>

definition metalearner_predict ::
  "string \<Rightarrow> (MLStageFullName \<times> 'a TrainedStageBaseLearner) list
     \<Rightarrow> error + ('a::{one,plus,minus,times}) list" where
  "metalearner_predict metalearner baselearners =
     (if metalearner = ''TLearner'' then
        bind_err (dict_getitem baselearners [''outcome_control'']) (\<lambda>c.
        let control_pred = pred c in
        bind_err (dict_getitem baselearners [''outcome_treatment'']) (\<lambda>t.
        let treatment_pred = pred t in
        np_binop (\<lambda>a b. a - b) treatment_pred control_pred))
      else if metalearner = ''XLearner'' then
        bind_err (dict_getitem baselearners [''outcome_treatment'', ''effect_control'']) (\<lambda>c.
        let control_pred = pred c in
        bind_err (dict_getitem baselearners [''outcome_control'', ''effect_treatment'']) (\<lambda>t.
        let treatment_pred = pred t in
        bind_err (dict_getitem baselearners [''propensity'']) (\<lambda>p.
        let propensity_pred = pred p in
        bind_err (np_binop (\<lambda>a b. a * b) propensity_pred treatment_pred) (\<lambda>l.
        bind_err (np_binop (\<lambda>a b. a * b) (map (\<lambda>x. 1 - x) propensity_pred) control_pred) (\<lambda>r.
        np_binop (\<lambda>a b. a + b) l r)))))
      else Inl (Exception []))"

text \<open>
  The body of the loop over the stages of one metalearner in \<^verbatim>\<open>_bl_for_ml\<close>:
  \<open>set_bls\<close> is the combination at hand, the result is \<^verbatim>\<open>ml_bls\<close>.
\<close>

definition ml_bls_step ::
  "(MLStageFullName \<times> 'a TrainedStageBaseLearner) list \<Rightarrow> MetaLearnerStage
     \<Rightarrow> (MLStageFullName \<times> 'a TrainedStageBaseLearner) list
     \<Rightarrow> (MLStageFullName \<times> 'a TrainedStageBaseLearner) list" where
  "ml_bls_step set_bls ml_stage ml_bls =
     (let ml_stage_full_name = full_name ml_stage in
      case map_of set_bls ml_stage_full_name of
        None \<Rightarrow> ml_bls
      | Some trained_sbl \<Rightarrow>
          (case prev_stage_bl trained_sbl of
             None \<Rightarrow> AList.update ml_stage_full_name trained_sbl ml_bls
           | Some prev \<Rightarrow>
               (case map_of set_bls (take 1 ml_stage_full_name) of
                  None \<Rightarrow> ml_bls
                | Some l1 \<Rightarrow>
                    if name prev = name (stage_bl l1)
                    then AList.update ml_stage_full_name trained_sbl ml_bls
                    else ml_bls)))"

definition ml_bls_of ::
  "(MLStageFullName \<times> 'a TrainedStageBaseLearner) list \<Rightarrow> MetaLearnerStage list
     \<Rightarrow> (MLStageFullName \<times> 'a TrainedStageBaseLearner) list" where
  "ml_bls_of set_bls ml_stages = fold (ml_bls_step set_bls) ml_stages []"

definition set_ml_with_sbls ::
  "(MLStageFullName \<times> 'a TrainedStageBaseLearner) list
     \<Rightarrow> (string \<times> (MLStageFullName \<times> 'a TrainedStageBaseLearner) list) list" where
  "set_ml_with_sbls set_bls =
     fold (\<lambda>(ml_name, ml_stages) acc.
             let ml_bls = ml_bls_of set_bls ml_stages
             in if length ml_bls = length ml_stages then AList.update ml_name ml_bls acc else acc)
       MAP_META_TO_STAGES []"

definition bl_for_ml ::
  "'a cache
     \<Rightarrow> error + (string \<times> (MLStageFullName \<times> 'a TrainedStageBaseLearner) list) list list" where
  "bl_for_ml trained_stage_baselearners =
     (let ready_metalearners =
            map (\<lambda>(ml_name, ml_stages).
                   list_all (\<lambda>s. map_of trained_stage_baselearners (full_name s) \<noteq> None) ml_stages)
              MAP_META_TO_STAGES
      in if \<not> list_ex (\<lambda>b. b) ready_metalearners
         then Inl (Exception ''No one metalearner can predict.'')
         else
           let stage_baselearners = py_dict trained_stage_baselearners;
               stage_names = map fst stage_baselearners;
               bls_prd = product_lists (map snd stage_baselearners)
           in Inr (map (\<lambda>bl. set_ml_with_sbls (py_dict (zip stage_names bl))) bls_prd))"

type_synonym TrainedMetaLearnerFullName = "string \<times> (MLStageFullName \<times> string) list"

fun fold_err :: "('x \<Rightarrow> 'y \<Rightarrow> error + 'y) \<Rightarrow> 'x list \<Rightarrow> 'y \<Rightarrow> error + 'y" where
  "fold_err f [] s = Inr s"
| "fold_err f (x # xs) s = (case f x s of Inl e \<Rightarrow> Inl e | Inr s' \<Rightarrow> fold_err f xs s')"

text \<open>
  \<open>calculate_uplift_auc\<close> is the metric with \<^verbatim>\<open>self.metric\<close> and
  \<^verbatim>\<open>self.normed_metric\<close> fixed: from target, prediction and treatment to a score.
\<close>

definition calculate_ml_metric ::
  "('a list \<Rightarrow> 'a list \<Rightarrow> 'a list \<Rightarrow> 's) \<Rightarrow> ('a::{one,plus,minus,times}) cache
     \<Rightarrow> 'a list \<Rightarrow> 'a list
     \<Rightarrow> (TrainedMetaLearnerFullName \<times> 's) list
     \<Rightarrow> error + (TrainedMetaLearnerFullName \<times> 's) list" where
  "calculate_ml_metric calculate_uplift_auc trained_stage_baselearners test_target test_treatment
       metalearner_metrics =
     bind_err (bl_for_ml trained_stage_baselearners) (\<lambda>sets.
     fold_err (\<lambda>(ml_name, stage_bls) metrics.
         let sbls = sort (map (\<lambda>(stage_name, bl). (stage_name, name (stage_bl bl))) stage_bls);
             trained_ml_full_name = (ml_name, sbls)
         in bind_err (metalearner_predict ml_name stage_bls) (\<lambda>uplift_pred.
            let metric_value = calculate_uplift_auc test_target uplift_pred test_treatment
            in Inr (AList.update trained_ml_full_name metric_value metrics)))
       (concat sets) metalearner_metrics)"

section \<open>Selecting the best metalearner\<close>

definition best_step ::
  "bool \<Rightarrow> 'k \<times> ('s::ord) \<Rightarrow> ('k \<times> 's) option \<Rightarrow> ('k \<times> 's) option" where
  \<comment> \<open>one iteration of the loop of \<^verbatim>\<open>_set_best_metalearner\<close>; the pair is
      (\<^verbatim>\<open>best_candidate\<close>, \<^verbatim>\<open>best_metric_value\<close>)\<close>
  "best_step increasing_metric kv best =
     (case best of
        None \<Rightarrow> Some kv
      | Some (best_candidate, best_metric_value) \<Rightarrow>
          if (increasing_metric \<and> best_metric_value < snd kv)
             \<or> (\<not> increasing_metric \<and> best_metric_value > snd kv)
          then Some kv
          else Some (best_candidate, best_metric_value))"

definition best_candidate :: "bool \<Rightarrow> ('k \<times> ('s::ord)) list \<Rightarrow> ('k \<times> 's) option" where
  "best_candidate increasing_metric metalearner_metrics =
     fold (best_step increasing_metric) metalearner_metrics None"

definition get_trained_bl ::
  "'a cache \<Rightarrow> MLStageFullName \<Rightarrow> string \<Rightarrow> error + 'a TrainedStageBaseLearner" where
  "get_trained_bl trained_stage_baselearners metalearner_stage baselearner_name =
     (case find (\<lambda>bl. name (stage_bl bl) = baselearner_name)
             (case map_of trained_stage_baselearners metalearner_stage of
                None \<Rightarrow> [] | Some bls \<Rightarrow> bls) of
        Some bl \<Rightarrow> Inr bl
      | None \<Rightarrow> Inl (Exception ''There isn't baselearner''))"

datatype 'a MetaLearner =
    TLearner (control_learner: "'a AutoML") (treatment_learner: "'a AutoML")
  | XLearner (outcome_learners: "'a AutoML list") (effect_learners: "'a AutoML list")
      (propensity_learner: "'a AutoML")

definition stage_bl_of ::
  "'a cache \<Rightarrow> (MLStageFullName \<times> string) list \<Rightarrow> MLStageFullName
     \<Rightarrow> error + 'a TrainedStageBaseLearner" where
  \<comment> \<open>\<^verbatim>\<open>self._get_trained_bl(stage, bls[stage])\<close>\<close>
  "stage_bl_of trained_stage_baselearners bls stage =
     bind_err (dict_getitem bls stage) (get_trained_bl trained_stage_baselearners stage)"

definition init_metalearner ::
  "'a cache \<Rightarrow> string \<Rightarrow> (MLStageFullName \<times> string) list \<Rightarrow> error + 'a MetaLearner" where
  "init_metalearner c metalearner_name bls =
     (if metalearner_name = ''TLearner'' then
        bind_err (stage_bl_of c bls [''outcome_control'']) (\<lambda>ocl.
        bind_err (stage_bl_of c bls [''outcome_treatment'']) (\<lambda>otl.
        Inr (TLearner (trained_model ocl) (trained_model otl))))
      else if metalearner_name = ''XLearner'' then
        bind_err (stage_bl_of c bls [''outcome_control'']) (\<lambda>ocl.
        bind_err (stage_bl_of c bls [''outcome_treatment'']) (\<lambda>otl.
        bind_err (stage_bl_of c bls [''propensity'']) (\<lambda>pl.
        bind_err (stage_bl_of c bls [''outcome_treatment'', ''effect_control'']) (\<lambda>ecl.
        bind_err (stage_bl_of c bls [''outcome_control'', ''effect_treatment'']) (\<lambda>etl.
        Inr (XLearner [trained_model ocl, trained_model otl]
               [trained_model ecl, trained_model etl] (trained_model pl)))))))
      else Inl (Exception []))"

definition create_metalearner_wrap ::
  "'a cache \<Rightarrow> string \<Rightarrow> (MLStageFullName \<times> string) list \<Rightarrow> error + MetaLearnerWrapper" where
  "create_metalearner_wrap c metalearner_name bls =
     (let ml_wrap_name = ''__ML__'' @ metalearner_name in
      if metalearner_name = ''TLearner'' then
        bind_err (stage_bl_of c bls [''outcome_control'']) (\<lambda>ocl.
        bind_err (stage_bl_of c bls [''outcome_treatment'']) (\<lambda>otl.
        Inr \<lparr>name = ml_wrap_name, klass = ''TLearner'',
             params = [(''control_learner'', PBase (stage_bl ocl)),
                       (''treatment_learner'', PBase (stage_bl otl))]\<rparr>))
      else if metalearner_name = ''XLearner'' then
        bind_err (stage_bl_of c bls [''outcome_control'']) (\<lambda>ocl.
        bind_err (stage_bl_of c bls [''outcome_treatment'']) (\<lambda>otl.
        bind_err (stage_bl_of c bls [''propensity'']) (\<lambda>pl.
        bind_err (stage_bl_of c bls [''outcome_treatment'', ''effect_control'']) (\<lambda>ecl.
        bind_err (stage_bl_of c bls [''outcome_control'', ''effect_treatment'']) (\<lambda>etl.
        Inr \<lparr>name = ml_wrap_name, klass = ''XLearner'',
             params = [(''outcome_learners'', PList [IBase (stage_bl ocl), IBase (stage_bl otl)]),
                       (''effect_learners'', PList [IBase (stage_bl ecl), IBase (stage_bl etl)]),
                       (''propensity_learner'', PBase (stage_bl pl))]\<rparr>)))))
      else Inl (Exception []))"

definition set_best_metalearner ::
  "'a cache \<Rightarrow> bool \<Rightarrow> (TrainedMetaLearnerFullName \<times> ('s::ord)) list
     \<Rightarrow> error + ('a MetaLearner \<times> MetaLearnerWrapper)" where
  "set_best_metalearner c increasing_metric metalearner_metrics =
     (case best_candidate increasing_metric metalearner_metrics of
        None \<Rightarrow> Inl TypeError
      | Some ((ml_name, stages_params), best_metric_value) \<Rightarrow>
          let stages_params = py_dict stages_params in
          bind_err (init_metalearner c ml_name stages_params) (\<lambda>best_metalearner.
          bind_err (create_metalearner_wrap c ml_name stages_params) (\<lambda>best_metalearner_wrap.
          Inr (best_metalearner, best_metalearner_wrap))))"

section \<open>The scheduler\<close>

text \<open>
  \<^verbatim>\<open>_generate_stage_baselearner_candidates\<close> is a generator. Its run is the list
  of its events: a submission it yields, or the exception that ends it. The consumer
  reads the list from the left, so an event is only reached when every event before it
  has been consumed. The configuration \<open>stage_baselearners\<close> is the dictionary that
  \<^verbatim>\<open>_set_stage_baselearners\<close> returns. The draws of
  \<^verbatim>\<open>np.random.randint(0, n, 1)[0]\<close> come from the process-wide generator of
  numpy: \<open>rng k\<close> is its \<open>k\<close>-th draw, reduced modulo the bound \<open>n\<close>.
\<close>

datatype gen_event = Submit stage_info | GenRaise error

type_synonym pool_entry = "MLStageFullName \<times> BaseLearnerWrapper option \<times> BaseLearnerWrapper list"

definition stage_by_levels :: "(MLStageFullName \<times> 'v) list \<Rightarrow> nat \<Rightarrow> MLStageFullName list" where
  "stage_by_levels stage_baselearners n =
     filter (\<lambda>stage. length stage = n) (map fst stage_baselearners)"

definition zip_longest :: "'x list list \<Rightarrow> 'x option list list" where
  \<comment> \<open>\<^verbatim>\<open>itertools.zip_longest(*xss)\<close>: as many rounds as the longest list has
      elements, a list that is exhausted contributes \<^verbatim>\<open>None\<close>\<close>
  "zip_longest xss =
     map (\<lambda>i. map (\<lambda>xs. if i < length xs then Some (xs ! i) else None) xss)
       [0..<foldr (\<lambda>xs. max (length xs)) xss 0]"

definition n_run_l2 :: nat where
  "n_run_l2 = 3"

definition pool_pop :: "nat \<Rightarrow> 'x list \<Rightarrow> 'x list" where
  \<comment> \<open>\<^verbatim>\<open>pool.pop(idx)\<close>: the list that is left\<close>
  "pool_pop idx pool = take idx pool @ drop (Suc idx) pool"

text \<open>
  The body of the \<^verbatim>\<open>try\<close> of both loops over the pool of level 2: the entry
  at \<open>idx\<close> advances its iterator by one and yields, or the iterator is exhausted
  (\<^verbatim>\<open>StopIteration\<close>) and the entry is popped.
\<close>

definition next_l2 :: "pool_entry list \<Rightarrow> nat \<Rightarrow> gen_event option \<times> pool_entry list" where
  "next_l2 pool idx =
     (case pool ! idx of
        (stage_name_l2, bl_l1, bls_iter) \<Rightarrow>
          (case bls_iter of
             [] \<Rightarrow> (None, pool_pop idx pool)
           | bl_l2 # rest \<Rightarrow>
               let pool' = pool[idx := (stage_name_l2, bl_l1, rest)] in
               (case extract_stage (take 1 stage_name_l2) of
                  Inl e \<Rightarrow> (Some (GenRaise e), pool')
                | Inr stage_l1 \<Rightarrow>
                    (case extract_stage stage_name_l2 of
                       Inl e \<Rightarrow> (Some (GenRaise e), pool')
                     | Inr stage_l2 \<Rightarrow>
                         (Some (Submit [(stage_l1, bl_l1), (stage_l2, Some bl_l2)]), pool')))))"

text \<open>
  The loop \<^verbatim>\<open>for _ in range(min(n_stage_iters, self._n_run_l2))\<close>. The state is
  the pool, \<^verbatim>\<open>n_runs\<close> and the number of draws made so far; the second
  component is \<open>None\<close> when the generator has ended with an exception.
\<close>

fun l2_runs ::
  "(nat \<Rightarrow> nat) \<Rightarrow> nat \<Rightarrow> pool_entry list \<times> nat \<times> nat
     \<Rightarrow> gen_event list \<times> (pool_entry list \<times> nat \<times> nat) option" where
  "l2_runs rng 0 st = ([], Some st)"
| "l2_runs rng (Suc m) (pool, n_runs, k) =
     (let n_stage_iters = length pool in
      if n_stage_iters = 0 then ([GenRaise ValueError], None)
      else
        let idx = rng k mod n_stage_iters in
        case next_l2 pool idx of
          (None, pool') \<Rightarrow> l2_runs rng m (pool', n_runs, Suc k)
        | (Some (GenRaise e), pool') \<Rightarrow> ([GenRaise e], None)
        | (Some (Submit s), pool') \<Rightarrow>
            (case l2_runs rng m (pool', n_runs + 1, Suc k) of
               (evs, st') \<Rightarrow> (Submit s # evs, st')))"

text \<open>
  The two nested loops over \<^verbatim>\<open>bls_level_1\<close> and over
  \<^verbatim>\<open>zip(stage_by_levels[1], bls)\<close>, run over the concatenation of the rounds. The
  state is the pool, \<^verbatim>\<open>first_run\<close>, \<^verbatim>\<open>n_runs\<close> and the number of
  draws made so far.
\<close>

fun l1_loop ::
  "(MLStageFullName \<times> BaseLearnerWrapper list) list \<Rightarrow> (nat \<Rightarrow> nat)
     \<Rightarrow> (MLStageFullName \<times> BaseLearnerWrapper option) list
     \<Rightarrow> pool_entry list \<times> bool \<times> nat \<times> nat
     \<Rightarrow> gen_event list \<times> (pool_entry list \<times> nat) option" where
  "l1_loop stage_baselearners rng [] (pool, first_run, n_runs, k) = ([], Some (pool, k))"
| "l1_loop stage_baselearners rng ((stage_name_l1, bl_l1) # items) (pool, first_run, n_runs, k) =
     (case extract_stage stage_name_l1 of
        Inl e \<Rightarrow> ([GenRaise e], None)
      | Inr stage_l1 \<Rightarrow>
          let pool = pool @
                map (\<lambda>(stage_name_l2, bls). (stage_name_l2, bl_l1, deepcopy bls))
                  (filter (\<lambda>(stage_name_l2, bls).
                             length stage_name_l2 = 2 \<and> take 1 stage_name_l2 = stage_name_l1)
                     stage_baselearners);
              n_runs = n_runs + 1;
              ev = Submit [(stage_l1, bl_l1)];
              n_l1 = length (stage_by_levels stage_baselearners 1)
          in
          if \<not> first_run then
            (let n_stage_iters = length pool in
             if n_stage_iters = 0 then
               (case l1_loop stage_baselearners rng items (pool, first_run, n_runs, k) of
                  (evs, r) \<Rightarrow> (ev # evs, r))
             else
               (case l2_runs rng (min n_stage_iters n_run_l2) (pool, n_runs, k) of
                  (evs2, None) \<Rightarrow> (ev # evs2, None)
                | (evs2, Some (pool', n_runs', k')) \<Rightarrow>
                    (case l1_loop stage_baselearners rng items
                            (pool', (if n_runs' \<ge> n_l1 then False else first_run), n_runs', k') of
                       (evs, r) \<Rightarrow> (ev # evs2 @ evs, r))))
          else
            (case l1_loop stage_baselearners rng items
                    (pool, (if n_runs \<ge> n_l1 then False else first_run), n_runs, k) of
               (evs, r) \<Rightarrow> (ev # evs, r)))"

definition pool_size :: "pool_entry list \<Rightarrow> nat" where
  "pool_size pool = sum_list (map (\<lambda>(stage_name_l2, bl_l1, bls_iter). Suc (length bls_iter)) pool)"

lemma pool_size_next_l2:
  assumes "idx < length pool" and "next_l2 pool idx = (ev, pool')"
  shows "pool_size pool' < pool_size pool"
proof -
  obtain s b it where e: "pool ! idx = (s, b, it)"
    by (cases "pool ! idx") auto
  have split: "pool = take idx pool @ (s, b, it) # drop (Suc idx) pool"
    using assms(1) e by (metis id_take_nth_drop)
  show ?thesis
  proof (cases it)
    case Nil
    then have "pool' = pool_pop idx pool"
      using assms(2) e by (simp add: next_l2_def)
    then have "pool_size pool' = pool_size (take idx pool) + pool_size (drop (Suc idx) pool)"
      by (simp add: pool_pop_def pool_size_def)
    moreover have "pool_size pool
        = pool_size (take idx pool) + Suc (length it) + pool_size (drop (Suc idx) pool)"
      by (subst split) (simp add: pool_size_def)
    ultimately show ?thesis by simp
  next
    case (Cons b2 rest)
    then have "pool' = pool[idx := (s, b, rest)]"
      using assms(2) e by (auto simp: next_l2_def Let_def split: sum.splits)
    then have "pool' = take idx pool @ (s, b, rest) # drop (Suc idx) pool"
      using assms(1) by (simp add: upd_conv_take_nth_drop)
    then have "pool_size pool'
        = pool_size (take idx pool) + Suc (length rest) + pool_size (drop (Suc idx) pool)"
      by (simp add: pool_size_def)
    moreover have "pool_size pool
        = pool_size (take idx pool) + Suc (length it) + pool_size (drop (Suc idx) pool)"
      by (subst split) (simp add: pool_size_def)
    ultimately show ?thesis using Cons by simp
  qed
qed

lemma pool_size_next_l2_mod:
  assumes "pool \<noteq> []" and "(ev, pool') = next_l2 pool (r mod length pool)"
  shows "pool_size pool' < pool_size pool"
  using assms pool_size_next_l2 [of "r mod length pool" pool ev pool'] by simp

text \<open>
  The loop \<^verbatim>\<open>while len(pool_iter_levels[2]) > 0\<close>: every round either advances
  one iterator or pops one entry, so it ends.
\<close>

function drain :: "(nat \<Rightarrow> nat) \<Rightarrow> nat \<Rightarrow> pool_entry list \<Rightarrow> gen_event list" where
  "drain rng k pool =
     (if length pool > 0 then
        (let n_stage_iters = length pool;
             idx = rng k mod n_stage_iters
         in case next_l2 pool idx of
              (None, pool') \<Rightarrow> drain rng (Suc k) pool'
            | (Some (GenRaise e), pool') \<Rightarrow> [GenRaise e]
            | (Some (Submit s), pool') \<Rightarrow> Submit s # drain rng (Suc k) pool')
      else [])"
  by pat_completeness auto
termination
  by (relation "measure (\<lambda>(rng, k, pool). pool_size pool)")
     (auto intro: pool_size_next_l2_mod)

definition l1_items ::
  "(MLStageFullName \<times> 'x list) list \<Rightarrow> (MLStageFullName \<times> 'x option) list" where
  \<comment> \<open>the pairs the two nested loops run over, round after round\<close>
  "l1_items stage_baselearners =
     (let bls_level_1 =
            zip_longest (map (\<lambda>(stage, bls). deepcopy bls)
              (filter (\<lambda>(stage, bls). stage \<in> set (stage_by_levels stage_baselearners 1))
                 stage_baselearners))
      in concat (map (\<lambda>bls. zip (stage_by_levels stage_baselearners 1) bls) bls_level_1))"

definition generate_stage_baselearner_candidates ::
  "(MLStageFullName \<times> BaseLearnerWrapper list) list \<Rightarrow> (nat \<Rightarrow> nat) \<Rightarrow> gen_event list" where
  "generate_stage_baselearner_candidates stage_baselearners rng =
     (case l1_loop stage_baselearners rng (l1_items stage_baselearners) ([], True, 0, 0) of
        (evs, None) \<Rightarrow> evs
      | (evs, Some (pool, k)) \<Rightarrow> evs @ drain rng k pool)"

section \<open>Training one submission and the run of fit\<close>

definition cache_append ::
  "('k \<times> 'v list) list \<Rightarrow> 'k \<Rightarrow> 'v \<Rightarrow> ('k \<times> 'v list) list" where
  \<comment> \<open>\<^verbatim>\<open>d[k].append(x)\<close> on a \<^verbatim>\<open>defaultdict(list)\<close>\<close>
  "cache_append d k x =
     (case map_of d k of
        None \<Rightarrow> d @ [(k, [x])]
      | Some xs \<Rightarrow> AList.update k (xs @ [x]) d)"

text \<open>
  The outside world of \<^verbatim>\<open>fit\<close>: \<open>w_learn\<close> instantiates a wrapper and fits it
  (\<^verbatim>\<open>bl_wrap()\<close>, \<^verbatim>\<open>bl.fit_predict\<close>), giving the trained model or the
  exception of the fit; \<open>w_time_limit_exceeded i\<close> is what the timer answers at its
  \<open>i\<close>-th call; \<open>w_train_test_split\<close> takes the data, the stratification values and
  \<^verbatim>\<open>random_state\<close>.
\<close>

record ('a, 's) world =
  w_learn :: "BaseLearnerWrapper \<Rightarrow> 'a DataFrame \<Rightarrow> roles \<Rightarrow> error + 'a AutoML"
  w_calculate_uplift_auc :: "'a list \<Rightarrow> 'a list \<Rightarrow> 'a list \<Rightarrow> 's"
  w_time_limit_exceeded :: "nat \<Rightarrow> bool"
  w_randint :: "nat \<Rightarrow> nat"
  w_train_test_split :: "'a DataFrame \<Rightarrow> 'a list \<Rightarrow> int \<Rightarrow> 'a DataFrame \<times> 'a DataFrame"

definition evaluate ::
  "(BaseLearnerWrapper \<Rightarrow> 'a DataFrame \<Rightarrow> roles \<Rightarrow> error + 'a AutoML)
     \<Rightarrow> ('a::{zero,one,minus}) cache \<Rightarrow> stage_info \<Rightarrow> 'a DataFrame \<Rightarrow> 'a DataFrame \<Rightarrow> roles
     \<Rightarrow> string \<times> string \<Rightarrow> string \<times> string \<Rightarrow> error + 'a cache" where
  "evaluate learn trained_stage_baselearners stage_info train test roles treatment target =
     bind_err (prepare_data_for_stage trained_stage_baselearners stage_info train roles
                 treatment target) (\<lambda>(train_data, train_roles).
     let (ml_stage, bl_wrap) = last stage_info;
         prev_bl_wrap = (if length stage_info = 2 then snd (stage_info ! 0) else None)
     in case bl_wrap of
          None \<Rightarrow> Inl TypeError
        | Some w \<Rightarrow>
            bind_err (learn w train_data train_roles) (\<lambda>bl.
            let test_pred = bl test;
                tsbl = \<lparr>stage_bl = w, prev_stage_bl = prev_bl_wrap, trained_model = bl,
                        pred = test_pred\<rparr>
            in Inr (cache_append trained_stage_baselearners (full_name ml_stage) tsbl)))"

text \<open>
  The loop of \<^verbatim>\<open>fit\<close> over the generator: after every training the timer is
  asked, and \<^verbatim>\<open>break\<close> leaves the rest of the events unread.
\<close>

fun fit_loop ::
  "(stage_info \<Rightarrow> 'c \<Rightarrow> error + 'c) \<Rightarrow> (nat \<Rightarrow> bool) \<Rightarrow> nat \<Rightarrow> gen_event list \<Rightarrow> 'c
     \<Rightarrow> error + 'c" where
  "fit_loop ev tm i [] c = Inr c"
| "fit_loop ev tm i (GenRaise e # evs) c = Inl e"
| "fit_loop ev tm i (Submit stage_info # evs) c =
     (case ev stage_info c of
        Inl e \<Rightarrow> Inl e
      | Inr c' \<Rightarrow> if tm i then Inr c' else fit_loop ev tm (Suc i) evs c')"

definition prepare_data ::
  "('a DataFrame \<Rightarrow> 'a list \<Rightarrow> int \<Rightarrow> 'a DataFrame \<times> 'a DataFrame) \<Rightarrow> int
     \<Rightarrow> ('a::{numeral,times}) DataFrame \<Rightarrow> string \<times> string \<Rightarrow> string \<times> string
     \<Rightarrow> error + ('a DataFrame \<times> 'a DataFrame \<times> 'a list \<times> 'a list)" where
  "prepare_data train_test_split random_state data treatment target =
     (let (treatment_role, treatment_col) = treatment;
          (target_role, target_col) = target
      in bind_err (df_getitem data target_col) (\<lambda>y.
         bind_err (df_getitem data treatment_col) (\<lambda>t.
         bind_err (np_binop (\<lambda>a b. a + b) y (map (\<lambda>x. 10 * x) t)) (\<lambda>stratify_value.
         let (train_data, test_data) = train_test_split data stratify_value random_state in
         bind_err (df_getitem test_data treatment_col) (\<lambda>test_treatment.
         bind_err (df_getitem test_data target_col) (\<lambda>test_target.
         Inr (train_data, test_data, test_treatment, test_target)))))))"

record ('a, 's) fitted =
  trained_stage_baselearners :: "'a cache"
  metalearner_metrics :: "(TrainedMetaLearnerFullName \<times> 's) list"
  best_metalearner :: "'a MetaLearner"
  best_metalearner_wrap :: MetaLearnerWrapper

text \<open>
  \<^verbatim>\<open>fit\<close> of \<^verbatim>\<open>AutoUpliftTX\<close> on a fresh object. The call
  \<^verbatim>\<open>self._calculate_ml_metric(test_treatment, test_target)\<close> passes the two
  arrays in this order to the parameters \<^verbatim>\<open>(test_target, test_treatment)\<close>.
\<close>

definition fit ::
  "('a::{zero,numeral,minus,times}, 's::ord) world
     \<Rightarrow> (MLStageFullName \<times> BaseLearnerWrapper list) list \<Rightarrow> int \<Rightarrow> bool
     \<Rightarrow> 'a DataFrame \<Rightarrow> roles \<Rightarrow> string \<times> string \<Rightarrow> string \<times> string
     \<Rightarrow> error + ('a, 's) fitted" where
  "fit w stage_baselearners random_state increasing_metric data roles treatment target =
     bind_err (prepare_data (w_train_test_split w) random_state data treatment target)
       (\<lambda>(train_data, test_data, test_treatment, test_target).
     bind_err (fit_loop (\<lambda>stage_info c.
                   evaluate (w_learn w) c stage_info train_data test_data roles treatment target)
                 (w_time_limit_exceeded w) 0
                 (generate_stage_baselearner_candidates stage_baselearners (w_randint w)) [])
       (\<lambda>c.
     bind_err (calculate_ml_metric (w_calculate_uplift_auc w) c test_treatment test_target [])
       (\<lambda>metrics.
     bind_err (set_best_metalearner c increasing_metric metrics)
       (\<lambda>(best, best_wrap).
     Inr \<lparr>trained_stage_baselearners = c, metalearner_metrics = metrics,
          best_metalearner = best, best_metalearner_wrap = best_wrap\<rparr>))))"

chapter \<open>Properties\<close>

section \<open>Preparing the data: the stages of depth 1 and 2\<close>

lemma mask_rows:
  "map snd (filter fst (zip (map p ts) vs)) = map snd (filter (\<lambda>(t, v). p t) (zip ts vs))"
proof (induction ts arbitrary: vs)
  case Nil
  then show ?case by simp
next
  case (Cons t ts)
  then show ?case by (cases vs) auto
qed

lemma alist_delete_filter: "AList.delete k al = filter (\<lambda>(k', v). k' \<noteq> k) al"
  by (induction al) auto

lemma df_mask_lookup:
  "map_of (df_mask df (map p ts)) c =
     map_option (\<lambda>vs. map snd (filter (\<lambda>(t, v). p t) (zip ts vs))) (map_of df c)"
  by (induction df) (auto simp: df_mask_def mask_rows)

lemma df_mask_delete:
  "AList.delete c (df_mask df (map p ts)) =
     map (\<lambda>(col, vs). (col, map snd (filter (\<lambda>(t, v). p t) (zip ts vs))))
       (filter (\<lambda>(col, vs). col \<noteq> c) df)"
  by (induction df) (auto simp: df_mask_def mask_rows)

lemma rows_lookup:
  "map_of (map (\<lambda>(col, vs). (col, f vs)) (filter (\<lambda>(col, vs). col \<noteq> c) df)) k =
     (if k = c then None else map_option f (map_of df k))"
  by (induction df) auto

lemma rows_length:
  "length vs = length ts \<Longrightarrow>
     length (filter (\<lambda>(t, v). p t) (zip ts vs)) = length (filter p ts)"
  by (induction ts vs rule: list_induct2') auto

lemma nrows_rows:
  assumes "list_all (\<lambda>(col, vs). length vs = length ts) df"
      and "map_of df k = Some y" and "k \<noteq> c"
  shows "nrows (map (\<lambda>(col, vs). (col, map snd (filter (\<lambda>(t, v). p t) (zip ts vs))))
                  (filter (\<lambda>(col, vs). col \<noteq> c) df)) = length (filter p ts)"
  using assms
proof (induction df)
  case Nil
  then show ?case by simp
next
  case (Cons a df)
  obtain col vs where a: "a = (col, vs)" by (cases a)
  show ?case
  proof (cases "col = c")
    case True
    then show ?thesis using Cons a by (auto split: if_splits)
  next
    case False
    then show ?thesis using Cons.prems a by (simp add: nrows_def rows_length)
  qed
qed

lemma first_match:
  "find P xs = Some r \<Longrightarrow> \<exists>x rest. xs = x # rest \<and> (\<exists>rs. filter P (x # rest) = r # rs)"
  by (induction xs) (auto split: if_splits)

lemma prev_stage_model_found:
  assumes "map_of cache (full_name prev_ml_stage) = Some recs"
      and "find (\<lambda>bl. name (stage_bl bl) = name w) recs = Some r"
  shows "prev_stage_model cache prev_ml_stage (Some w) = Inr (trained_model r)"
proof -
  from first_match [OF assms(2)] obtain x rest rs where
    "recs = x # rest" "filter (\<lambda>bl. name (stage_bl bl) = name w) (x # rest) = r # rs"
    by blast
  then show ?thesis
    using assms(1) by (simp add: prev_stage_model_def)
qed

text \<open>
  Claim C3. A submission of depth 1 is prepared as follows. For \<^verbatim>\<open>outcome_control\<close>
  the frame holds exactly the rows whose treatment is 0, without the treatment column and
  with the target column as it was; for \<^verbatim>\<open>outcome_treatment\<close> the same with
  the rows whose treatment is 1; for \<^verbatim>\<open>propensity\<close> it holds all rows without
  the target column, and the roles name the treatment column as the target. Any other
  stage name of depth 1 raises.
\<close>

theorem prepare_data_for_stage_l1:
  fixes train :: "('a::{zero,one,minus}) DataFrame"
    and t y :: "'a list" and treatment_col :: string
    and rows_where :: "'a \<Rightarrow> 'a DataFrame"
  defines "rows_where g \<equiv>
     map (\<lambda>(col, vs). (col, map snd (filter (\<lambda>(x, v). x = g) (zip t vs))))
       (filter (\<lambda>(col, vs). col \<noteq> treatment_col) train)"
  assumes "map_of train treatment_col = Some t"
      and "map_of train target_col = Some y"
      and "treatment_col \<noteq> target_col"
      and "map_of roles treatment_role = Some rc"
      and "map_of roles target_role = Some rc'"
      and "treatment_role \<noteq> target_role"
  shows "(stage_name st = ''outcome_control'' \<longrightarrow>
           prepare_data_for_stage cache [(st, bl)] train roles
               (treatment_role, treatment_col) (target_role, target_col)
             = Inr (rows_where 0, AList.delete treatment_role roles)
           \<and> map_of (rows_where 0) treatment_col = None
           \<and> map_of (rows_where 0) target_col
               = Some (map snd (filter (\<lambda>(x, v). x = 0) (zip t y))))
       \<and> (stage_name st = ''outcome_treatment'' \<longrightarrow>
           prepare_data_for_stage cache [(st, bl)] train roles
               (treatment_role, treatment_col) (target_role, target_col)
             = Inr (rows_where 1, AList.delete treatment_role roles)
           \<and> map_of (rows_where 1) treatment_col = None
           \<and> map_of (rows_where 1) target_col
               = Some (map snd (filter (\<lambda>(x, v). x = 1) (zip t y))))
       \<and> (stage_name st = ''propensity'' \<longrightarrow>
           prepare_data_for_stage cache [(st, bl)] train roles
               (treatment_role, treatment_col) (target_role, target_col)
             = Inr (filter (\<lambda>(col, vs). col \<noteq> target_col) train,
                    AList.update ''target'' treatment_col
                      (AList.delete target_role (AList.delete treatment_role roles))))
       \<and> (stage_name st \<notin> {''propensity'', ''outcome_control'', ''outcome_treatment''} \<longrightarrow>
           prepare_data_for_stage cache [(st, bl)] train roles
               (treatment_role, treatment_col) (target_role, target_col)
             = Inl (Exception ''Wrong l1 stage name''))"
proof -
  have pop: "dict_pop roles treatment_role = Inr (AList.delete treatment_role roles)"
    using assms(5) by (simp add: dict_pop_def)
  have pop2: "dict_pop (AList.delete treatment_role roles) target_role
      = Inr (AList.delete target_role (AList.delete treatment_role roles))"
    using assms(6,7) by (simp add: dict_pop_def delete_conv)
  have get: "df_getitem train treatment_col = Inr t"
    using assms(2) by (simp add: df_getitem_def dict_getitem_def)
  have drop: "df_drop (df_mask train (map (\<lambda>x. x = g) t)) treatment_col = Inr (rows_where g)" for g
    using assms(2) by (simp add: df_drop_def dict_pop_def df_mask_lookup df_mask_delete assms(1))
  have dropy: "df_drop train target_col = Inr (filter (\<lambda>(col, vs). col \<noteq> target_col) train)"
    using assms(3) by (simp add: df_drop_def dict_pop_def alist_delete_filter)
  have look: "map_of (rows_where g) treatment_col = None" for g
    by (simp add: assms(1) rows_lookup)
  have looky: "map_of (rows_where g) target_col
      = Some (map snd (filter (\<lambda>(x, v). x = g) (zip t y)))" for g
    using assms(3,4) by (simp add: assms(1) rows_lookup)
  show ?thesis
    by (simp add: prepare_data_for_stage_def bind_err_def deepcopy_def pop pop2 get drop dropy
        look looky)
qed

theorem prepare_data_for_stage_l1_witness:
  "prepare_data_for_stage ([] :: int cache)
     [(MetaLearnerStage ''outcome_control'' [] None, Some \<lparr>name = ''A'', klass = ''K'', params = []\<rparr>)]
     [(''t'', [0, 1, 0, 1]), (''y'', [5, 6, 7, 8]), (''x'', [1, 2, 3, 4])]
     [(''target'', ''y''), (''treatment'', ''t'')] (''treatment'', ''t'') (''target'', ''y'')
   = Inr ([(''y'', [5, 7]), (''x'', [1, 3])], [(''target'', ''y'')])
   \<and> prepare_data_for_stage ([] :: int cache)
     [(MetaLearnerStage ''outcome_treatment'' [] None, Some \<lparr>name = ''A'', klass = ''K'', params = []\<rparr>)]
     [(''t'', [0, 1, 0, 1]), (''y'', [5, 6, 7, 8]), (''x'', [1, 2, 3, 4])]
     [(''target'', ''y''), (''treatment'', ''t'')] (''treatment'', ''t'') (''target'', ''y'')
   = Inr ([(''y'', [6, 8]), (''x'', [2, 4])], [(''target'', ''y'')])
   \<and> prepare_data_for_stage ([] :: int cache)
     [(MetaLearnerStage ''propensity'' [(''task'', VTask ''binary'')] None,
       Some \<lparr>name = ''A'', klass = ''K'', params = []\<rparr>)]
     [(''t'', [0, 1, 0, 1]), (''y'', [5, 6, 7, 8]), (''x'', [1, 2, 3, 4])]
     [(''target'', ''y''), (''treatment'', ''t'')] (''treatment'', ''t'') (''target'', ''y'')
   = Inr ([(''t'', [0, 1, 0, 1]), (''x'', [1, 2, 3, 4])], [(''target'', ''t'')])
   \<and> prepare_data_for_stage ([] :: int cache)
     [(MetaLearnerStage ''effect_control'' [] None, Some \<lparr>name = ''A'', klass = ''K'', params = []\<rparr>)]
     [(''t'', [0, 1, 0, 1]), (''y'', [5, 6, 7, 8]), (''x'', [1, 2, 3, 4])]
     [(''target'', ''y''), (''treatment'', ''t'')] (''treatment'', ''t'') (''target'', ''y'')
   = Inl (Exception ''Wrong l1 stage name'')"
proof -
  let ?train = "[(''t'', [0, 1, 0, 1 :: int]), (''y'', [5, 6, 7, 8]), (''x'', [1, 2, 3, 4])]"
  let ?roles = "[(''target'', ''y''), (''treatment'', ''t'')]"
  let ?A = "Some \<lparr>name = ''A'', klass = ''K'', params = []\<rparr> :: BaseLearnerWrapper option"
  have a: "map_of ?train ''t'' = Some [0, 1, 0, 1 :: int]"
    "map_of ?train ''y'' = Some [5, 6, 7, 8 :: int]" "''t'' \<noteq> ''y''"
    "map_of ?roles ''treatment'' = Some ''t''" "map_of ?roles ''target'' = Some ''y''"
    "''treatment'' \<noteq> ''target''"
    by simp_all
  note T = prepare_data_for_stage_l1 [OF a]
  show ?thesis
    using T [of "MetaLearnerStage ''outcome_control'' [] None" "[]" ?A]
          T [of "MetaLearnerStage ''outcome_treatment'' [] None" "[]" ?A]
          T [of "MetaLearnerStage ''propensity'' [(''task'', VTask ''binary'')] None" "[]" ?A]
          T [of "MetaLearnerStage ''effect_control'' [] None" "[]" ?A]
    by simp
qed

text \<open>
  Claim C2. A submission of depth 2 is prepared as follows. For \<^verbatim>\<open>effect_control\<close>
  the frame holds exactly the rows whose treatment is 0, without the treatment column, and
  its target column is the prediction of the prerequisite's model on these rows minus the
  original target; for \<^verbatim>\<open>effect_treatment\<close> it holds the rows whose treatment
  is 1 and its target column is the original target minus that prediction. The model is
  the one of the first cached record of the prerequisite stage that carries the
  prerequisite candidate's name. Any other stage name of depth 2 raises. The frame has
  columns of one length, and the model predicts one number per row.
\<close>

theorem prepare_data_for_stage_l2:
  fixes train :: "('a::{zero,one,minus}) DataFrame"
    and t y :: "'a list" and treatment_col :: string
    and rows_where :: "'a \<Rightarrow> 'a DataFrame"
    and target_where :: "'a \<Rightarrow> 'a list"
  defines "rows_where g \<equiv>
     map (\<lambda>(col, vs). (col, map snd (filter (\<lambda>(x, v). x = g) (zip t vs))))
       (filter (\<lambda>(col, vs). col \<noteq> treatment_col) train)"
    and "target_where g \<equiv> map snd (filter (\<lambda>(x, v). x = g) (zip t y))"
  assumes "map_of train treatment_col = Some t"
      and "map_of train target_col = Some y"
      and "treatment_col \<noteq> target_col"
      and "list_all (\<lambda>(col, vs). length vs = length t) train"
      and "map_of roles treatment_role = Some rc"
      and "map_of cache (full_name prev_ml_stage) = Some recs"
      and "find (\<lambda>bl. name (stage_bl bl) = name prev_bl_wrap) recs = Some r"
      and "length (trained_model r (rows_where 0)) = length (filter (\<lambda>x. x = 0) t)"
      and "length (trained_model r (rows_where 1)) = length (filter (\<lambda>x. x = 1) t)"
  shows "(stage_name st = ''effect_control'' \<longrightarrow>
           prepare_data_for_stage cache [(prev_ml_stage, Some prev_bl_wrap), (st, bl)] train roles
               (treatment_role, treatment_col) (target_role, target_col)
             = Inr (AList.update target_col
                      (map2 (\<lambda>p v. p - v) (trained_model r (rows_where 0)) (target_where 0))
                      (rows_where 0),
                    AList.delete treatment_role roles))
       \<and> (stage_name st = ''effect_treatment'' \<longrightarrow>
           prepare_data_for_stage cache [(prev_ml_stage, Some prev_bl_wrap), (st, bl)] train roles
               (treatment_role, treatment_col) (target_role, target_col)
             = Inr (AList.update target_col
                      (map2 (\<lambda>v p. v - p) (target_where 1) (trained_model r (rows_where 1)))
                      (rows_where 1),
                    AList.delete treatment_role roles))
       \<and> (stage_name st \<notin> {''effect_control'', ''effect_treatment''} \<longrightarrow>
           prepare_data_for_stage cache [(prev_ml_stage, Some prev_bl_wrap), (st, bl)] train roles
               (treatment_role, treatment_col) (target_role, target_col)
             = Inl (Exception ''Wrong l2 stage name''))"
proof -
  have pop: "dict_pop roles treatment_role = Inr (AList.delete treatment_role roles)"
    using assms(7) by (simp add: dict_pop_def)
  have model: "prev_stage_model cache prev_ml_stage (Some prev_bl_wrap) = Inr (trained_model r)"
    using assms(8,9) by (rule prev_stage_model_found)
  have get: "df_getitem train treatment_col = Inr t"
    using assms(3) by (simp add: df_getitem_def dict_getitem_def)
  have drop: "df_drop (df_mask train (map (\<lambda>x. x = g) t)) treatment_col = Inr (rows_where g)" for g
    using assms(3) by (simp add: df_drop_def dict_pop_def df_mask_lookup df_mask_delete assms(1))
  have gety: "df_getitem (rows_where g) target_col = Inr (target_where g)" for g
    using assms(4,5) by (simp add: df_getitem_def dict_getitem_def assms(1,2) rows_lookup)
  have len: "length y = length t"
    using assms(4,6) by (auto simp: list_all_iff dest!: map_of_SomeD)
  have leny: "length (target_where g) = length (filter (\<lambda>x. x = g) t)" for g
    using len by (simp add: assms(2) rows_length)
  have rows: "nrows (rows_where g) = length (filter (\<lambda>x. x = g) t)" for g
    unfolding assms(1) using assms(6,4) assms(5) [symmetric] by (rule nrows_rows)
  have sub0: "np_binop (\<lambda>a b. a - b) (trained_model r (rows_where 0)) (target_where 0)
      = Inr (map2 (\<lambda>p v. p - v) (trained_model r (rows_where 0)) (target_where 0))"
    by (simp add: np_binop_def assms(10) leny)
  have sub1: "np_binop (\<lambda>a b. a - b) (target_where 1) (trained_model r (rows_where 1))
      = Inr (map2 (\<lambda>v p. v - p) (target_where 1) (trained_model r (rows_where 1)))"
    by (simp add: np_binop_def assms(11) leny)
  have set0: "df_setitem (rows_where 0) target_col
        (map2 (\<lambda>p v. p - v) (trained_model r (rows_where 0)) (target_where 0))
      = Inr (AList.update target_col
              (map2 (\<lambda>p v. p - v) (trained_model r (rows_where 0)) (target_where 0))
              (rows_where 0))"
    by (simp add: df_setitem_def rows assms(10) leny)
  have set1: "df_setitem (rows_where 1) target_col
        (map2 (\<lambda>v p. v - p) (target_where 1) (trained_model r (rows_where 1)))
      = Inr (AList.update target_col
              (map2 (\<lambda>v p. v - p) (target_where 1) (trained_model r (rows_where 1)))
              (rows_where 1))"
    by (simp add: df_setitem_def rows assms(11) leny)
  show ?thesis
    by (simp add: prepare_data_for_stage_def bind_err_def deepcopy_def pop model get drop gety
        sub0 sub1 set0 set1)
qed


theorem prepare_data_for_stage_l2_witness:
  "prepare_data_for_stage
     [([''outcome_treatment''],
       [\<lparr>stage_bl = \<lparr>name = ''A'', klass = ''K'', params = []\<rparr>, prev_stage_bl = None,
         trained_model = (\<lambda>df. map (\<lambda>x. 10 * x) (case map_of df ''x'' of Some xs \<Rightarrow> xs | None \<Rightarrow> [])),
         pred = []\<rparr>])]
     [(MetaLearnerStage ''outcome_treatment'' [] None, Some \<lparr>name = ''A'', klass = ''K'', params = []\<rparr>),
      (MetaLearnerStage ''effect_control'' [(''task'', VTask ''reg'')]
         (Some (MetaLearnerStage ''outcome_treatment'' [] None)),
       Some \<lparr>name = ''B'', klass = ''K'', params = []\<rparr>)]
     [(''t'', [0, 1, 0, 1 :: int]), (''y'', [5, 6, 7, 8]), (''x'', [1, 2, 3, 4])]
     [(''target'', ''y''), (''treatment'', ''t'')] (''treatment'', ''t'') (''target'', ''y'')
   = Inr ([(''y'', [5, 23]), (''x'', [1, 3])], [(''target'', ''y'')])
   \<and> prepare_data_for_stage
     [([''outcome_control''],
       [\<lparr>stage_bl = \<lparr>name = ''A'', klass = ''K'', params = []\<rparr>, prev_stage_bl = None,
         trained_model = (\<lambda>df. map (\<lambda>x. 10 * x) (case map_of df ''x'' of Some xs \<Rightarrow> xs | None \<Rightarrow> [])),
         pred = []\<rparr>])]
     [(MetaLearnerStage ''outcome_control'' [] None, Some \<lparr>name = ''A'', klass = ''K'', params = []\<rparr>),
      (MetaLearnerStage ''effect_treatment'' [(''task'', VTask ''reg'')]
         (Some (MetaLearnerStage ''outcome_control'' [] None)),
       Some \<lparr>name = ''B'', klass = ''K'', params = []\<rparr>)]
     [(''t'', [0, 1, 0, 1 :: int]), (''y'', [5, 6, 7, 8]), (''x'', [1, 2, 3, 4])]
     [(''target'', ''y''), (''treatment'', ''t'')] (''treatment'', ''t'') (''target'', ''y'')
   = Inr ([(''y'', [- 14, - 32]), (''x'', [2, 4])], [(''target'', ''y'')])
   \<and> prepare_data_for_stage
     [([''outcome_control''],
       [\<lparr>stage_bl = \<lparr>name = ''A'', klass = ''K'', params = []\<rparr>, prev_stage_bl = None,
         trained_model = (\<lambda>df. map (\<lambda>x. 10 * x) (case map_of df ''x'' of Some xs \<Rightarrow> xs | None \<Rightarrow> [])),
         pred = []\<rparr>])]
     [(MetaLearnerStage ''outcome_control'' [] None, Some \<lparr>name = ''A'', klass = ''K'', params = []\<rparr>),
      (MetaLearnerStage ''effect_other'' [] (Some (MetaLearnerStage ''outcome_control'' [] None)),
       Some \<lparr>name = ''B'', klass = ''K'', params = []\<rparr>)]
     [(''t'', [0, 1, 0, 1 :: int]), (''y'', [5, 6, 7, 8]), (''x'', [1, 2, 3, 4])]
     [(''target'', ''y''), (''treatment'', ''t'')] (''treatment'', ''t'') (''target'', ''y'')
   = Inl (Exception ''Wrong l2 stage name'')"
proof -
  let ?m = "(\<lambda>df. map (\<lambda>x. 10 * x) (case map_of df ''x'' of Some xs \<Rightarrow> xs | None \<Rightarrow> []))
              :: int AutoML"
  let ?A = "\<lparr>name = ''A'', klass = ''K'', params = []\<rparr> :: BaseLearnerWrapper"
  let ?r = "\<lparr>stage_bl = ?A, prev_stage_bl = None, trained_model = ?m, pred = []\<rparr>"
  let ?train = "[(''t'', [0, 1, 0, 1 :: int]), (''y'', [5, 6, 7, 8]), (''x'', [1, 2, 3, 4])]"
  let ?roles = "[(''target'', ''y''), (''treatment'', ''t'')]"
  have a: "map_of ?train ''t'' = Some [0, 1, 0, 1 :: int]" "map_of ?train ''y'' = Some [5, 6, 7, 8 :: int]"
    "''t'' \<noteq> ''y''" "list_all (\<lambda>(col, vs). length vs = length [0, 1, 0, 1 :: int]) ?train"
    "map_of ?roles ''treatment'' = Some ''t''"
    by simp_all
  have f: "find (\<lambda>bl. name (stage_bl bl) = name ?A) [?r] = Some ?r"
    by simp
  have ot: "map_of [([''outcome_treatment''], [?r])] (full_name (MetaLearnerStage ''outcome_treatment'' [] None))
      = Some [?r]"
    by simp
  have oc: "map_of [([''outcome_control''], [?r])] (full_name (MetaLearnerStage ''outcome_control'' [] None))
      = Some [?r]"
    by simp
  have l0: "length (trained_model ?r (map (\<lambda>(col, vs). (col, map snd (filter (\<lambda>(x, v). x = 0) (zip [0, 1, 0, 1 :: int] vs))))
                       (filter (\<lambda>(col, vs). col \<noteq> ''t'') ?train)))
      = length (filter (\<lambda>x. x = 0) [0, 1, 0, 1 :: int])"
    by simp
  have l1: "length (trained_model ?r (map (\<lambda>(col, vs). (col, map snd (filter (\<lambda>(x, v). x = 1) (zip [0, 1, 0, 1 :: int] vs))))
                       (filter (\<lambda>(col, vs). col \<noteq> ''t'') ?train)))
      = length (filter (\<lambda>x. x = 1) [0, 1, 0, 1 :: int])"
    by simp
  note T1 = prepare_data_for_stage_l2 [OF a ot f l0 l1]
  note T2 = prepare_data_for_stage_l2 [OF a oc f l0 l1]
  show ?thesis
    using T1 [of "MetaLearnerStage ''effect_control'' [(''task'', VTask ''reg'')]
                    (Some (MetaLearnerStage ''outcome_treatment'' [] None))"
                 "Some \<lparr>name = ''B'', klass = ''K'', params = []\<rparr>" "''target''"]
          T2 [of "MetaLearnerStage ''effect_treatment'' [(''task'', VTask ''reg'')]
                    (Some (MetaLearnerStage ''outcome_control'' [] None))"
                 "Some \<lparr>name = ''B'', klass = ''K'', params = []\<rparr>" "''target''"]
          T2 [of "MetaLearnerStage ''effect_other'' []
                    (Some (MetaLearnerStage ''outcome_control'' [] None))"
                 "Some \<lparr>name = ''B'', klass = ''K'', params = []\<rparr>" "''target''"]
    by simp
qed

section \<open>The prediction of an assembled metalearner\<close>

lemma map2_nth:
  "length xs = length ys \<Longrightarrow> map2 f xs ys = map (\<lambda>i. f (xs ! i) (ys ! i)) [0..<length xs]"
  by (rule nth_equalityI) simp_all

lemma np_binop_same_length:
  "length xs = length ys \<Longrightarrow>
     np_binop f xs ys = Inr (map (\<lambda>i. f (xs ! i) (ys ! i)) [0..<length xs])"
  by (simp add: np_binop_def map2_nth)

text \<open>
  Claim C4. The held-out uplift of an assembled metalearner is computed elementwise: for
  \<^verbatim>\<open>TLearner\<close> it is the prediction of \<^verbatim>\<open>outcome_treatment\<close> minus
  the prediction of \<^verbatim>\<open>outcome_control\<close>; for \<^verbatim>\<open>XLearner\<close> it is the
  propensity times the prediction of \<^verbatim>\<open>effect_treatment\<close> plus one minus the
  propensity times the prediction of \<^verbatim>\<open>effect_control\<close>; any other name
  raises. The predictions are made on one held-out frame, so they have one length.
\<close>

theorem metalearner_predict_formula:
  fixes baselearners :: "(MLStageFullName \<times> ('a::{one,plus,minus,times}) TrainedStageBaseLearner) list"
  shows "(map_of baselearners [''outcome_control''] = Some oc
            \<and> map_of baselearners [''outcome_treatment''] = Some ot
            \<and> length (pred oc) = n \<and> length (pred ot) = n \<longrightarrow>
          metalearner_predict ''TLearner'' baselearners
            = Inr (map (\<lambda>i. pred ot ! i - pred oc ! i) [0..<n]))
       \<and> (map_of baselearners [''outcome_treatment'', ''effect_control''] = Some ec
            \<and> map_of baselearners [''outcome_control'', ''effect_treatment''] = Some et
            \<and> map_of baselearners [''propensity''] = Some p
            \<and> length (pred ec) = n \<and> length (pred et) = n \<and> length (pred p) = n \<longrightarrow>
          metalearner_predict ''XLearner'' baselearners
            = Inr (map (\<lambda>i. pred p ! i * pred et ! i + (1 - pred p ! i) * pred ec ! i) [0..<n]))
       \<and> (metalearner \<notin> {''TLearner'', ''XLearner''} \<longrightarrow>
          metalearner_predict metalearner baselearners = Inl (Exception []))"
proof (intro conjI impI)
  assume a: "map_of baselearners [''outcome_control''] = Some oc
            \<and> map_of baselearners [''outcome_treatment''] = Some ot
            \<and> length (pred oc) = n \<and> length (pred ot) = n"
  then show "metalearner_predict ''TLearner'' baselearners
            = Inr (map (\<lambda>i. pred ot ! i - pred oc ! i) [0..<n])"
    by (simp add: metalearner_predict_def bind_err_def dict_getitem_def Let_def
        np_binop_same_length)
next
  assume a: "map_of baselearners [''outcome_treatment'', ''effect_control''] = Some ec
            \<and> map_of baselearners [''outcome_control'', ''effect_treatment''] = Some et
            \<and> map_of baselearners [''propensity''] = Some p
            \<and> length (pred ec) = n \<and> length (pred et) = n \<and> length (pred p) = n"
  have l: "np_binop (\<lambda>a b. a * b) (pred p) (pred et)
      = Inr (map (\<lambda>i. pred p ! i * pred et ! i) [0..<n])"
    using a by (simp add: np_binop_same_length)
  have r: "np_binop (\<lambda>a b. a * b) (map (\<lambda>x. 1 - x) (pred p)) (pred ec)
      = Inr (map (\<lambda>i. (1 - pred p ! i) * pred ec ! i) [0..<n])"
    using a by (simp add: np_binop_same_length)
  have s: "np_binop (\<lambda>a b. a + b) (map (\<lambda>i. pred p ! i * pred et ! i) [0..<n])
        (map (\<lambda>i. (1 - pred p ! i) * pred ec ! i) [0..<n])
      = Inr (map (\<lambda>i. pred p ! i * pred et ! i + (1 - pred p ! i) * pred ec ! i) [0..<n])"
    by (simp add: np_binop_same_length)
  show "metalearner_predict ''XLearner'' baselearners
      = Inr (map (\<lambda>i. pred p ! i * pred et ! i + (1 - pred p ! i) * pred ec ! i) [0..<n])"
    using a by (simp add: metalearner_predict_def bind_err_def dict_getitem_def Let_def l r s)
next
  assume "metalearner \<notin> {''TLearner'', ''XLearner''}"
  then show "metalearner_predict metalearner baselearners = Inl (Exception [])"
    by (simp add: metalearner_predict_def)
qed


theorem metalearner_predict_formula_witness:
  "metalearner_predict ''TLearner''
     [([''outcome_control''],
       \<lparr>stage_bl = \<lparr>name = ''A'', klass = ''K'', params = []\<rparr>, prev_stage_bl = None,
        trained_model = (\<lambda>df. []), pred = [1, 2 :: int]\<rparr>),
      ([''outcome_treatment''],
       \<lparr>stage_bl = \<lparr>name = ''A'', klass = ''K'', params = []\<rparr>, prev_stage_bl = None,
        trained_model = (\<lambda>df. []), pred = [5, 9]\<rparr>)]
   = Inr [4, 7]
   \<and> metalearner_predict ''XLearner''
     [([''propensity''],
       \<lparr>stage_bl = \<lparr>name = ''A'', klass = ''K'', params = []\<rparr>, prev_stage_bl = None,
        trained_model = (\<lambda>df. []), pred = [2, 3 :: int]\<rparr>),
      ([''outcome_treatment'', ''effect_control''],
       \<lparr>stage_bl = \<lparr>name = ''A'', klass = ''K'', params = []\<rparr>,
        prev_stage_bl = Some \<lparr>name = ''A'', klass = ''K'', params = []\<rparr>,
        trained_model = (\<lambda>df. []), pred = [10, 20]\<rparr>),
      ([''outcome_control'', ''effect_treatment''],
       \<lparr>stage_bl = \<lparr>name = ''A'', klass = ''K'', params = []\<rparr>,
        prev_stage_bl = Some \<lparr>name = ''A'', klass = ''K'', params = []\<rparr>,
        trained_model = (\<lambda>df. []), pred = [7, 5]\<rparr>)]
   = Inr [4, - 25]
   \<and> metalearner_predict ''SLearner''
     ([] :: (MLStageFullName \<times> int TrainedStageBaseLearner) list)
   = Inl (Exception [])"
proof -
  let ?A = "\<lparr>name = ''A'', klass = ''K'', params = []\<rparr> :: BaseLearnerWrapper"
  let ?oc = "\<lparr>stage_bl = ?A, prev_stage_bl = None, trained_model = (\<lambda>df. []),
              pred = [1, 2 :: int]\<rparr>"
  let ?ot = "\<lparr>stage_bl = ?A, prev_stage_bl = None, trained_model = (\<lambda>df. []),
              pred = [5, 9 :: int]\<rparr>"
  let ?p = "\<lparr>stage_bl = ?A, prev_stage_bl = None, trained_model = (\<lambda>df. []),
             pred = [2, 3 :: int]\<rparr>"
  let ?ec = "\<lparr>stage_bl = ?A, prev_stage_bl = Some ?A, trained_model = (\<lambda>df. []),
              pred = [10, 20 :: int]\<rparr>"
  let ?et = "\<lparr>stage_bl = ?A, prev_stage_bl = Some ?A, trained_model = (\<lambda>df. []),
              pred = [7, 5 :: int]\<rparr>"
  have u: "[0..<2] = [0, Suc 0]"
    by (simp add: upt_rec)
  show ?thesis
    using metalearner_predict_formula
            [of "[([''outcome_control''], ?oc), ([''outcome_treatment''], ?ot)]"
                ?oc ?ot 2 ?ec ?et ?p "''SLearner''"]
          metalearner_predict_formula
            [of "[([''propensity''], ?p), ([''outcome_treatment'', ''effect_control''], ?ec),
                  ([''outcome_control'', ''effect_treatment''], ?et)]"
                ?oc ?ot 2 ?ec ?et ?p "''SLearner''"]
          metalearner_predict_formula
            [of "[] :: (MLStageFullName \<times> int TrainedStageBaseLearner) list"
                ?oc ?ot 2 ?ec ?et ?p "''SLearner''"]
    by (simp add: u)
qed

section \<open>The selection of the best metalearner\<close>

lemma best_candidate_snoc:
  "best_candidate inc (tbl @ [kv]) = best_step inc kv (best_candidate inc tbl)"
  by (simp add: best_candidate_def)

lemma best_step_Some:
  "best_step inc kv (Some b) =
     (if (inc \<and> snd b < snd kv) \<or> (\<not> inc \<and> snd kv < snd b) then Some kv else Some b)"
  by (cases b) (simp add: best_step_def)

lemma best_candidate_increasing:
  fixes tbl :: "('k \<times> ('s::linorder)) list"
  assumes "tbl \<noteq> []"
  shows "\<exists>i<length tbl. best_candidate True tbl = Some (tbl ! i)
           \<and> (\<forall>j<length tbl. snd (tbl ! j) \<le> snd (tbl ! i))
           \<and> (\<forall>j<i. snd (tbl ! j) < snd (tbl ! i))"
  using assms
proof (induction tbl rule: rev_induct)
  case Nil
  then show ?case by simp
next
  case (snoc kv tbl)
  show ?case
  proof (cases "tbl = []")
    case True
    then show ?thesis by (simp add: best_candidate_def best_step_def)
  next
    case False
    from snoc.IH [OF False] obtain i where i: "i < length tbl"
      and b: "best_candidate True tbl = Some (tbl ! i)"
      and mx: "\<forall>j<length tbl. snd (tbl ! j) \<le> snd (tbl ! i)"
      and fst: "\<forall>j<i. snd (tbl ! j) < snd (tbl ! i)"
      by blast
    show ?thesis
    proof (cases "snd (tbl ! i) < snd kv")
      case True
      have "best_candidate True (tbl @ [kv]) = Some ((tbl @ [kv]) ! length tbl)"
        using True b by (simp add: best_candidate_snoc best_step_Some)
      moreover have "\<forall>j<length (tbl @ [kv]). snd ((tbl @ [kv]) ! j) \<le> snd ((tbl @ [kv]) ! length tbl)"
        using True mx by (auto simp: nth_append less_Suc_eq dest: order.strict_implies_order order.trans)
      moreover have "\<forall>j<length tbl. snd ((tbl @ [kv]) ! j) < snd ((tbl @ [kv]) ! length tbl)"
        using True mx by (auto simp: nth_append intro: le_less_trans)
      ultimately show ?thesis
        by (intro exI [of _ "length tbl"]) simp
    next
      case False
      have "best_candidate True (tbl @ [kv]) = Some ((tbl @ [kv]) ! i)"
        using False b i by (simp add: best_candidate_snoc best_step_Some nth_append)
      moreover have "\<forall>j<length (tbl @ [kv]). snd ((tbl @ [kv]) ! j) \<le> snd ((tbl @ [kv]) ! i)"
        using False mx i by (auto simp: nth_append less_Suc_eq not_less)
      moreover have "\<forall>j<i. snd ((tbl @ [kv]) ! j) < snd ((tbl @ [kv]) ! i)"
        using fst i by (auto simp: nth_append)
      ultimately show ?thesis
        using i by (intro exI [of _ i]) simp
    qed
  qed
qed

lemma best_candidate_decreasing:
  fixes tbl :: "('k \<times> ('s::linorder)) list"
  assumes "tbl \<noteq> []"
  shows "\<exists>i<length tbl. best_candidate False tbl = Some (tbl ! i)
           \<and> (\<forall>j<length tbl. snd (tbl ! i) \<le> snd (tbl ! j))
           \<and> (\<forall>j<i. snd (tbl ! i) < snd (tbl ! j))"
  using assms
proof (induction tbl rule: rev_induct)
  case Nil
  then show ?case by simp
next
  case (snoc kv tbl)
  show ?case
  proof (cases "tbl = []")
    case True
    then show ?thesis by (simp add: best_candidate_def best_step_def)
  next
    case False
    from snoc.IH [OF False] obtain i where i: "i < length tbl"
      and b: "best_candidate False tbl = Some (tbl ! i)"
      and mx: "\<forall>j<length tbl. snd (tbl ! i) \<le> snd (tbl ! j)"
      and fst: "\<forall>j<i. snd (tbl ! i) < snd (tbl ! j)"
      by blast
    show ?thesis
    proof (cases "snd kv < snd (tbl ! i)")
      case True
      have "best_candidate False (tbl @ [kv]) = Some ((tbl @ [kv]) ! length tbl)"
        using True b by (simp add: best_candidate_snoc best_step_Some)
      moreover have "\<forall>j<length (tbl @ [kv]). snd ((tbl @ [kv]) ! length tbl) \<le> snd ((tbl @ [kv]) ! j)"
        using True mx by (auto simp: nth_append less_Suc_eq dest: order.strict_implies_order order.trans)
      moreover have "\<forall>j<length tbl. snd ((tbl @ [kv]) ! length tbl) < snd ((tbl @ [kv]) ! j)"
        using True mx by (auto simp: nth_append intro: less_le_trans)
      ultimately show ?thesis
        by (intro exI [of _ "length tbl"]) simp
    next
      case False
      have "best_candidate False (tbl @ [kv]) = Some ((tbl @ [kv]) ! i)"
        using False b i by (simp add: best_candidate_snoc best_step_Some nth_append)
      moreover have "\<forall>j<length (tbl @ [kv]). snd ((tbl @ [kv]) ! i) \<le> snd ((tbl @ [kv]) ! j)"
        using False mx i by (auto simp: nth_append less_Suc_eq not_less)
      moreover have "\<forall>j<i. snd ((tbl @ [kv]) ! i) < snd ((tbl @ [kv]) ! j)"
        using fst i by (auto simp: nth_append)
      ultimately show ?thesis
        using i by (intro exI [of _ i]) simp
    qed
  qed
qed

text \<open>
  Claim C10. The best metalearner is the entry of the score table that is extremal in the
  configured direction, and the comparison is strict: an entry replaces the current best
  only when its score is strictly greater (increasing metric) or strictly less (otherwise),
  so among entries with the extremal score the first of the table is selected. On an empty
  table the selection raises. The scores are totally ordered.
\<close>

theorem best_candidate_extremal:
  fixes metalearner_metrics :: "(TrainedMetaLearnerFullName \<times> ('s::linorder)) list"
  assumes "metalearner_metrics \<noteq> []"
  shows "(\<exists>i<length metalearner_metrics.
            best_candidate inc metalearner_metrics = Some (metalearner_metrics ! i)
          \<and> (\<forall>j<length metalearner_metrics.
                if inc then snd (metalearner_metrics ! j) \<le> snd (metalearner_metrics ! i)
                else snd (metalearner_metrics ! i) \<le> snd (metalearner_metrics ! j))
          \<and> (\<forall>j<i.
                if inc then snd (metalearner_metrics ! j) < snd (metalearner_metrics ! i)
                else snd (metalearner_metrics ! i) < snd (metalearner_metrics ! j))
          \<and> set_best_metalearner c inc metalearner_metrics
              = (let stages_params = py_dict (snd (fst (metalearner_metrics ! i)));
                     ml_name = fst (fst (metalearner_metrics ! i))
                 in bind_err (init_metalearner c ml_name stages_params) (\<lambda>best.
                    bind_err (create_metalearner_wrap c ml_name stages_params) (\<lambda>best_wrap.
                    Inr (best, best_wrap)))))
       \<and> (\<forall>kv. best_candidate inc (metalearner_metrics @ [kv])
              = (case best_candidate inc metalearner_metrics of
                   None \<Rightarrow> Some kv
                 | Some b \<Rightarrow>
                     if (inc \<and> snd b < snd kv) \<or> (\<not> inc \<and> snd kv < snd b)
                     then Some kv else Some b))
       \<and> set_best_metalearner c inc ([] :: (TrainedMetaLearnerFullName \<times> 's) list)
           = Inl TypeError"
proof (intro conjI allI)
  obtain i where i: "i < length metalearner_metrics"
    and b: "best_candidate inc metalearner_metrics = Some (metalearner_metrics ! i)"
    and mx: "\<forall>j<length metalearner_metrics.
                if inc then snd (metalearner_metrics ! j) \<le> snd (metalearner_metrics ! i)
                else snd (metalearner_metrics ! i) \<le> snd (metalearner_metrics ! j)"
    and fst: "\<forall>j<i.
                if inc then snd (metalearner_metrics ! j) < snd (metalearner_metrics ! i)
                else snd (metalearner_metrics ! i) < snd (metalearner_metrics ! j)"
    using best_candidate_increasing [OF assms] best_candidate_decreasing [OF assms]
    by (cases inc) auto
  have "set_best_metalearner c inc metalearner_metrics
      = (let stages_params = py_dict (snd (fst (metalearner_metrics ! i)));
             ml_name = fst (fst (metalearner_metrics ! i))
         in bind_err (init_metalearner c ml_name stages_params) (\<lambda>best.
            bind_err (create_metalearner_wrap c ml_name stages_params) (\<lambda>best_wrap.
            Inr (best, best_wrap))))"
    by (simp add: set_best_metalearner_def b Let_def split: prod.splits)
  then show "\<exists>i<length metalearner_metrics.
            best_candidate inc metalearner_metrics = Some (metalearner_metrics ! i)
          \<and> (\<forall>j<length metalearner_metrics.
                if inc then snd (metalearner_metrics ! j) \<le> snd (metalearner_metrics ! i)
                else snd (metalearner_metrics ! i) \<le> snd (metalearner_metrics ! j))
          \<and> (\<forall>j<i.
                if inc then snd (metalearner_metrics ! j) < snd (metalearner_metrics ! i)
                else snd (metalearner_metrics ! i) < snd (metalearner_metrics ! j))
          \<and> set_best_metalearner c inc metalearner_metrics
              = (let stages_params = py_dict (snd (fst (metalearner_metrics ! i)));
                     ml_name = fst (fst (metalearner_metrics ! i))
                 in bind_err (init_metalearner c ml_name stages_params) (\<lambda>best.
                    bind_err (create_metalearner_wrap c ml_name stages_params) (\<lambda>best_wrap.
                    Inr (best, best_wrap))))"
    using i b mx fst by blast
next
  fix kv
  show "best_candidate inc (metalearner_metrics @ [kv])
      = (case best_candidate inc metalearner_metrics of
           None \<Rightarrow> Some kv
         | Some b \<Rightarrow>
             if (inc \<and> snd b < snd kv) \<or> (\<not> inc \<and> snd kv < snd b)
             then Some kv else Some b)"
    by (simp add: best_candidate_snoc best_step_Some best_step_def split: option.splits)
next
  show "set_best_metalearner c inc ([] :: (TrainedMetaLearnerFullName \<times> 's) list) = Inl TypeError"
    by (simp add: set_best_metalearner_def best_candidate_def)
qed

theorem best_candidate_extremal_witness:
  "best_candidate True
     [((''TLearner'', [([''outcome_control''], ''A'')]), 1 :: int),
      ((''TLearner'', [([''outcome_control''], ''B'')]), 3),
      ((''XLearner'', [([''outcome_control''], ''A'')]), 3),
      ((''XLearner'', [([''outcome_control''], ''B'')]), 1)]
   = Some ((''TLearner'', [([''outcome_control''], ''B'')]), 3)
   \<and> best_candidate False
     [((''TLearner'', [([''outcome_control''], ''A'')]), 1 :: int),
      ((''TLearner'', [([''outcome_control''], ''B'')]), 3),
      ((''XLearner'', [([''outcome_control''], ''A'')]), 3),
      ((''XLearner'', [([''outcome_control''], ''B'')]), 1)]
   = Some ((''TLearner'', [([''outcome_control''], ''A'')]), 1)"
proof -
  let ?tbl = "[((''TLearner'', [([''outcome_control''], ''A'')]), 1 :: int),
      ((''TLearner'', [([''outcome_control''], ''B'')]), 3),
      ((''XLearner'', [([''outcome_control''], ''A'')]), 3),
      ((''XLearner'', [([''outcome_control''], ''B'')]), 1)]"
  have ne: "?tbl \<noteq> []" by simp
  from best_candidate_extremal [OF ne, of True "[] :: int cache"]
  obtain i where i: "i < length ?tbl" and b: "best_candidate True ?tbl = Some (?tbl ! i)"
    and mx: "\<forall>j<length ?tbl. snd (?tbl ! j) \<le> snd (?tbl ! i)"
    and fst: "\<forall>j<i. snd (?tbl ! j) < snd (?tbl ! i)"
    by auto
  have "i = 1"
  proof -
    have "i = 1 \<or> i = 2"
      using i mx [THEN spec, of 1] by (auto simp: less_Suc_eq)
    moreover have "i \<noteq> 2"
      using fst [THEN spec, of 1] by auto
    ultimately show ?thesis by simp
  qed
  with b have t: "best_candidate True ?tbl = Some ((''TLearner'', [([''outcome_control''], ''B'')]), 3)"
    by simp
  from best_candidate_extremal [OF ne, of False "[] :: int cache"]
  obtain k where k: "k < length ?tbl" and b': "best_candidate False ?tbl = Some (?tbl ! k)"
    and mn: "\<forall>j<length ?tbl. snd (?tbl ! k) \<le> snd (?tbl ! j)"
    and fst': "\<forall>j<k. snd (?tbl ! k) < snd (?tbl ! j)"
    by auto
  have "k = 0"
  proof -
    have "k = 0 \<or> k = 3"
      using k mn [THEN spec, of 0] by (auto simp: less_Suc_eq)
    moreover have "k \<noteq> 3"
      using fst' [THEN spec, of 0] by auto
    ultimately show ?thesis by simp
  qed
  with b' have f: "best_candidate False ?tbl = Some ((''TLearner'', [([''outcome_control''], ''A'')]), 1)"
    by simp
  from t f show ?thesis by simp
qed

section \<open>The assembly of the metalearners\<close>

lemma ml_bls_step_consistent:
  assumes "\<forall>fn r. map_of acc fn = Some r \<longrightarrow>
        map_of set_bls fn = Some r \<and>
        (\<forall>p. prev_stage_bl r = Some p \<longrightarrow>
           (\<exists>l1. map_of set_bls (take 1 fn) = Some l1 \<and> name (stage_bl l1) = name p))"
  shows "\<forall>fn r. map_of (ml_bls_step set_bls s acc) fn = Some r \<longrightarrow>
        map_of set_bls fn = Some r \<and>
        (\<forall>p. prev_stage_bl r = Some p \<longrightarrow>
           (\<exists>l1. map_of set_bls (take 1 fn) = Some l1 \<and> name (stage_bl l1) = name p))"
  using assms unfolding ml_bls_step_def Let_def
  by (auto simp: update_conv' split: option.splits if_splits)

lemma ml_bls_fold_consistent:
  assumes "\<forall>fn r. map_of acc fn = Some r \<longrightarrow>
        map_of set_bls fn = Some r \<and>
        (\<forall>p. prev_stage_bl r = Some p \<longrightarrow>
           (\<exists>l1. map_of set_bls (take 1 fn) = Some l1 \<and> name (stage_bl l1) = name p))"
  shows "\<forall>fn r. map_of (fold (ml_bls_step set_bls) stages acc) fn = Some r \<longrightarrow>
        map_of set_bls fn = Some r \<and>
        (\<forall>p. prev_stage_bl r = Some p \<longrightarrow>
           (\<exists>l1. map_of set_bls (take 1 fn) = Some l1 \<and> name (stage_bl l1) = name p))"
  using assms
proof (induction stages arbitrary: acc)
  case Nil
  then show ?case by simp
next
  case (Cons s stages)
  from ml_bls_step_consistent [OF Cons.prems] show ?case
    by (simp only: fold_simps) (rule Cons.IH)
qed

lemma ml_bls_of_consistent:
  assumes "map_of (ml_bls_of set_bls stages) fn = Some r"
  shows "map_of set_bls fn = Some r"
    and "prev_stage_bl r = Some p \<Longrightarrow>
           \<exists>l1. map_of set_bls (take 1 fn) = Some l1 \<and> name (stage_bl l1) = name p"
  using ml_bls_fold_consistent [of "[]" set_bls stages] assms
  by (auto simp: ml_bls_of_def)

lemma ml_bls_step_keys:
  "fst ` set (ml_bls_step set_bls s acc) \<subseteq> insert (full_name s) (fst ` set acc)"
  unfolding ml_bls_step_def Let_def
  by (auto simp: dom_update split: option.splits if_splits)

lemma ml_bls_step_distinct:
  "distinct (map fst acc) \<Longrightarrow> distinct (map fst (ml_bls_step set_bls s acc))"
  unfolding ml_bls_step_def Let_def
  by (auto simp: distinct_update split: option.splits if_splits)

lemma ml_bls_step_mismatched:
  assumes "map_of set_bls fn = Some r" and "prev_stage_bl r = Some p"
      and "\<forall>l1. map_of set_bls (take 1 fn) = Some l1 \<longrightarrow> name (stage_bl l1) \<noteq> name p"
      and "fn \<notin> fst ` set acc"
  shows "fn \<notin> fst ` set (ml_bls_step set_bls s acc)"
  using assms unfolding ml_bls_step_def Let_def
  by (auto simp: dom_update split: option.splits if_splits)

lemma ml_bls_fold_keys:
  "fst ` set (fold (ml_bls_step set_bls) stages acc) \<subseteq> full_name ` set stages \<union> fst ` set acc"
proof (induction stages arbitrary: acc)
  case Nil
  then show ?case by simp
next
  case (Cons s stages)
  show ?case
    using Cons.IH [of "ml_bls_step set_bls s acc"] ml_bls_step_keys [of set_bls s acc] by auto
qed

lemma ml_bls_fold_distinct:
  "distinct (map fst acc) \<Longrightarrow> distinct (map fst (fold (ml_bls_step set_bls) stages acc))"
  by (induction stages arbitrary: acc) (simp_all add: ml_bls_step_distinct)

lemma ml_bls_fold_mismatched:
  assumes "map_of set_bls fn = Some r" and "prev_stage_bl r = Some p"
      and "\<forall>l1. map_of set_bls (take 1 fn) = Some l1 \<longrightarrow> name (stage_bl l1) \<noteq> name p"
      and "fn \<notin> fst ` set acc"
  shows "fn \<notin> fst ` set (fold (ml_bls_step set_bls) stages acc)"
  using assms(4)
proof (induction stages arbitrary: acc)
  case Nil
  then show ?case by simp
next
  case (Cons s stages)
  from ml_bls_step_mismatched [OF assms(1-3) Cons.prems, of s] show ?case
    by (simp only: fold_simps) (rule Cons.IH)
qed

lemma mismatched_incomplete:
  assumes "map_of set_bls (full_name s) = Some r" and "prev_stage_bl r = Some p"
      and "\<forall>l1. map_of set_bls (take 1 (full_name s)) = Some l1 \<longrightarrow> name (stage_bl l1) \<noteq> name p"
      and "s \<in> set stages"
  shows "length (ml_bls_of set_bls stages) < length stages"
proof -
  let ?b = "ml_bls_of set_bls stages"
  have d: "distinct (map fst ?b)"
    unfolding ml_bls_of_def by (rule ml_bls_fold_distinct) simp
  have k: "fst ` set ?b \<subseteq> full_name ` set stages"
    unfolding ml_bls_of_def using ml_bls_fold_keys [of set_bls stages "[]"] by simp
  have n: "full_name s \<notin> fst ` set ?b"
    unfolding ml_bls_of_def using assms(1-3) by (rule ml_bls_fold_mismatched) simp
  have "fst ` set ?b \<subseteq> full_name ` set stages - {full_name s}"
    using k n by blast
  moreover have "full_name ` set stages - {full_name s} \<subset> full_name ` set stages"
    using assms(4) by blast
  ultimately have "fst ` set ?b \<subset> full_name ` set stages"
    by blast
  then have "card (fst ` set ?b) < card (full_name ` set stages)"
    by (simp add: psubset_card_mono)
  moreover have "card (fst ` set ?b) = length ?b"
    using d by (metis distinct_card length_map set_map)
  moreover have "card (full_name ` set stages) \<le> length stages"
    by (metis card_image_le card_length le_trans List.finite_set)
  ultimately show ?thesis by simp
qed

lemma set_ml_with_sbls_lookup:
  "map_of (set_ml_with_sbls set_bls) ml_name =
     (case map_of MAP_META_TO_STAGES ml_name of
        None \<Rightarrow> None
      | Some ml_stages \<Rightarrow>
          if length (ml_bls_of set_bls ml_stages) = length ml_stages
          then Some (ml_bls_of set_bls ml_stages) else None)"
  by (simp add: set_ml_with_sbls_def MAP_META_TO_STAGES_def Let_def update_conv')

lemma bl_for_ml_nth:
  assumes "bl_for_ml cache = Inr sets" and "i < length sets"
  shows "sets ! i = set_ml_with_sbls (py_dict (zip (map fst (py_dict cache))
            (product_lists (map snd (py_dict cache)) ! i)))"
  using assms by (auto simp: bl_for_ml_def Let_def split: if_splits)

text \<open>
  Claim C1. In every combination of the cross product that \<^verbatim>\<open>_bl_for_ml\<close>
  runs over, a record trained against a prerequisite candidate is part of a metalearner's
  assignment only if the record chosen in this combination for its prerequisite stage
  carries the same candidate name; and a metalearner one of whose stages has, in this
  combination, a record trained against another candidate than the one chosen for the
  prerequisite stage is not assembled for this combination. The combination \<open>i\<close> is
  \<open>set_bls\<close>; the identity of a candidate is its display name, which is what the
  source compares.
\<close>

theorem bl_for_ml_prerequisite:
  fixes cache :: "'a cache" and i :: nat
    and set_bls :: "(MLStageFullName \<times> 'a TrainedStageBaseLearner) list"
  defines "set_bls \<equiv> py_dict (zip (map fst (py_dict cache))
                        (product_lists (map snd (py_dict cache)) ! i))"
  assumes "bl_for_ml cache = Inr sets" and "i < length sets"
  shows "(\<forall>ml_name ml_bls fn r p.
            map_of (sets ! i) ml_name = Some ml_bls \<and> map_of ml_bls fn = Some r
              \<and> prev_stage_bl r = Some p \<longrightarrow>
            map_of set_bls fn = Some r
              \<and> (\<exists>l1. map_of set_bls (take 1 fn) = Some l1 \<and> name (stage_bl l1) = name p))
       \<and> (\<forall>ml_name ml_stages s r p.
            map_of MAP_META_TO_STAGES ml_name = Some ml_stages \<and> s \<in> set ml_stages
              \<and> map_of set_bls (full_name s) = Some r \<and> prev_stage_bl r = Some p
              \<and> (\<forall>l1. map_of set_bls (take 1 (full_name s)) = Some l1
                       \<longrightarrow> name (stage_bl l1) \<noteq> name p) \<longrightarrow>
            map_of (sets ! i) ml_name = None)"
proof -
  have nth: "sets ! i = set_ml_with_sbls set_bls"
    unfolding set_bls_def using assms(2,3) by (rule bl_for_ml_nth)
  show ?thesis
  proof (intro conjI allI impI)
    fix ml_name ml_bls fn r p
    assume a: "map_of (sets ! i) ml_name = Some ml_bls \<and> map_of ml_bls fn = Some r
                \<and> prev_stage_bl r = Some p"
    then obtain ml_stages where "ml_bls = ml_bls_of set_bls ml_stages"
      by (auto simp: nth set_ml_with_sbls_lookup split: option.splits if_splits)
    with a have m: "map_of (ml_bls_of set_bls ml_stages) fn = Some r"
      by simp
    from ml_bls_of_consistent(1) [OF m] show "map_of set_bls fn = Some r" .
    from ml_bls_of_consistent(2) [OF m] a
    show "\<exists>l1. map_of set_bls (take 1 fn) = Some l1 \<and> name (stage_bl l1) = name p"
      by simp
  next
    fix ml_name ml_stages s r p
    assume a: "map_of MAP_META_TO_STAGES ml_name = Some ml_stages \<and> s \<in> set ml_stages
              \<and> map_of set_bls (full_name s) = Some r \<and> prev_stage_bl r = Some p
              \<and> (\<forall>l1. map_of set_bls (take 1 (full_name s)) = Some l1
                       \<longrightarrow> name (stage_bl l1) \<noteq> name p)"
    then have "length (ml_bls_of set_bls ml_stages) < length ml_stages"
      using mismatched_incomplete [of set_bls s r p ml_stages] by blast
    with a show "map_of (sets ! i) ml_name = None"
      by (simp add: nth set_ml_with_sbls_lookup)
  qed
qed


theorem bl_for_ml_prerequisite_witness:
  "\<exists>sets. bl_for_ml
       [([''outcome_control''],
         [\<lparr>stage_bl = \<lparr>name = ''A'', klass = ''K'', params = []\<rparr>, prev_stage_bl = None,
           trained_model = (\<lambda>df. []), pred = [1 :: int]\<rparr>,
          \<lparr>stage_bl = \<lparr>name = ''B'', klass = ''K'', params = []\<rparr>, prev_stage_bl = None,
           trained_model = (\<lambda>df. []), pred = [2]\<rparr>]),
        ([''outcome_treatment''],
         [\<lparr>stage_bl = \<lparr>name = ''A'', klass = ''K'', params = []\<rparr>, prev_stage_bl = None,
           trained_model = (\<lambda>df. []), pred = [1]\<rparr>]),
        ([''propensity''],
         [\<lparr>stage_bl = \<lparr>name = ''A'', klass = ''K'', params = []\<rparr>, prev_stage_bl = None,
           trained_model = (\<lambda>df. []), pred = [1]\<rparr>]),
        ([''outcome_treatment'', ''effect_control''],
         [\<lparr>stage_bl = \<lparr>name = ''A'', klass = ''K'', params = []\<rparr>,
           prev_stage_bl = Some \<lparr>name = ''A'', klass = ''K'', params = []\<rparr>,
           trained_model = (\<lambda>df. []), pred = [3]\<rparr>]),
        ([''outcome_control'', ''effect_treatment''],
         [\<lparr>stage_bl = \<lparr>name = ''A'', klass = ''K'', params = []\<rparr>,
           prev_stage_bl = Some \<lparr>name = ''A'', klass = ''K'', params = []\<rparr>,
           trained_model = (\<lambda>df. []), pred = [3]\<rparr>])]
     = Inr sets
     \<and> map (map fst) sets = [[''TLearner'', ''XLearner''], [''TLearner'']]
     \<and> map_of (sets ! 1) ''XLearner'' = None"
proof -
  let ?A = "\<lparr>name = ''A'', klass = ''K'', params = []\<rparr> :: BaseLearnerWrapper"
  let ?B = "\<lparr>name = ''B'', klass = ''K'', params = []\<rparr> :: BaseLearnerWrapper"
  let ?rA = "\<lparr>stage_bl = ?A, prev_stage_bl = None, trained_model = (\<lambda>df. []), pred = [1 :: int]\<rparr>"
  let ?rB = "\<lparr>stage_bl = ?B, prev_stage_bl = None, trained_model = (\<lambda>df. []), pred = [2 :: int]\<rparr>"
  let ?rAA = "\<lparr>stage_bl = ?A, prev_stage_bl = Some ?A, trained_model = (\<lambda>df. []),
               pred = [3 :: int]\<rparr>"
  let ?C = "[([''outcome_control''], [?rA, ?rB]), ([''outcome_treatment''], [?rA]),
            ([''propensity''], [?rA]), ([''outcome_treatment'', ''effect_control''], [?rAA]),
            ([''outcome_control'', ''effect_treatment''], [?rAA])]"
  let ?et = "MetaLearnerStage ''effect_treatment'' [(''task'', VTask ''reg'')]
               (Some (MetaLearnerStage ''outcome_control'' [] None))"
  let ?xs = "[MetaLearnerStage ''outcome_control'' [] None,
              MetaLearnerStage ''outcome_treatment'' [] None,
              MetaLearnerStage ''propensity'' [(''task'', VTask ''binary'')] None,
              MetaLearnerStage ''effect_control'' [(''task'', VTask ''reg'')]
                (Some (MetaLearnerStage ''outcome_treatment'' [] None)),
              ?et]"
  have d: "py_dict ?C = ?C"
    by (simp add: py_dict_def dict_update_def)
  obtain sets where e: "bl_for_ml ?C = Inr sets"
    by (simp add: bl_for_ml_def d MAP_META_TO_STAGES_def)
  then have s: "sets = map (\<lambda>bl. set_ml_with_sbls (py_dict (zip (map fst ?C) bl)))
                    (product_lists (map snd ?C))"
    by (simp add: bl_for_ml_def d MAP_META_TO_STAGES_def)
  have n: "map (map fst) sets = [[''TLearner'', ''XLearner''], [''TLearner'']]"
    unfolding s by code_simp
  have i: "1 < length sets"
    unfolding s by simp
  have c: "py_dict (zip (map fst (py_dict ?C)) (product_lists (map snd (py_dict ?C)) ! 1))
      = [([''outcome_control''], ?rB), ([''outcome_treatment''], ?rA), ([''propensity''], ?rA),
         ([''outcome_treatment'', ''effect_control''], ?rAA),
         ([''outcome_control'', ''effect_treatment''], ?rAA)]"
    unfolding d by (simp add: py_dict_def dict_update_def)
  let ?set_bls = "py_dict (zip (map fst (py_dict ?C)) (product_lists (map snd (py_dict ?C)) ! 1))"
  have p1: "map_of MAP_META_TO_STAGES ''XLearner'' = Some ?xs"
    by (simp add: MAP_META_TO_STAGES_def)
  have p2: "?et \<in> set ?xs"
    by simp
  have p3: "map_of ?set_bls (full_name ?et) = Some ?rAA"
    by (simp only: c) simp
  have p4: "prev_stage_bl ?rAA = Some ?A"
    by simp
  have p5: "\<forall>l1. map_of ?set_bls (take 1 (full_name ?et)) = Some l1
              \<longrightarrow> name (stage_bl l1) \<noteq> name ?A"
    by (simp only: c) simp
  have x: "map_of (sets ! 1) ''XLearner'' = None"
    by (rule bl_for_ml_prerequisite [OF e i, THEN conjunct2, THEN spec, THEN spec,
            THEN spec, THEN spec, THEN spec, of "''XLearner''" ?xs ?et ?rAA ?A, THEN mp])
       (intro conjI p1 p2 p3 p4 p5)
  from e n x show ?thesis by (intro exI conjI)
qed

section \<open>Two runs of the code\<close>

lemma drain_Nil: "drain rng k [] = []"
  by (subst drain.simps) simp

text \<open>
  Claim C6 says that the override reaches every base-learner wrapper of the returned
  specification. The run below shows what the code does: the wrapper inside the list
  carries the new timeout, the wrapper held directly as a dictionary value keeps the old
  one, because the copy taken before the update is what \<^verbatim>\<open>new_params\<close> receives.
\<close>

theorem update_baselearner_params_skips_direct_wrappers:
  "create_best_metalearner ([([''outcome_control''], [])] :: int cache)
     \<lparr>name = ''__ML__XLearner'', klass = ''XLearner'',
      params =
        [(''outcome_learners'',
          PList [IBase \<lparr>name = ''A'', klass = ''TabularAutoML'', params = [(''timeout'', VInt 10)]\<rparr>]),
         (''propensity_learner'',
          PBase \<lparr>name = ''A'', klass = ''TabularAutoML'', params = [(''timeout'', VInt 10)]\<rparr>)]\<rparr>
     True [(''timeout'', VInt 100)]
   = Inr \<lparr>name = ''__ML__XLearner'', klass = ''XLearner'',
          params =
            [(''outcome_learners'',
              PList [IBase \<lparr>name = ''A'', klass = ''TabularAutoML'', params = [(''timeout'', VInt 100)]\<rparr>]),
             (''propensity_learner'',
              PBase \<lparr>name = ''A'', klass = ''TabularAutoML'', params = [(''timeout'', VInt 10)]\<rparr>)]\<rparr>"
  by (simp add: create_best_metalearner_def update_baselearner_params_def update_params_def
      dict_update_def deepcopy_def Let_def)

text \<open>
  Claim C9 says that a stage with an empty candidate list contributes no submission. The
  run below shows what the code does for a stage of level 1, whatever the draws: the fill
  value of \<^verbatim>\<open>zip_longest\<close> is paired with the stage and submitted as its
  candidate.
\<close>

theorem zip_longest_submits_missing_candidate:
  "\<forall>rng. generate_stage_baselearner_candidates
     [([''outcome_control''], []),
      ([''outcome_treatment''], [\<lparr>name = ''A'', klass = ''K'', params = []\<rparr>])] rng
   = [Submit [(MetaLearnerStage ''outcome_control'' [] None, None)],
      Submit [(MetaLearnerStage ''outcome_treatment'' [] None,
               Some \<lparr>name = ''A'', klass = ''K'', params = []\<rparr>)]]"
  by (simp add: generate_stage_baselearner_candidates_def l1_items_def zip_longest_def
      stage_by_levels_def deepcopy_def extract_stage_def extract_stages_def
      MAP_META_TO_STAGES_def drain_Nil upt_rec)

end
